theory Spec2Isabelle
  imports Complex_Main "HOL-Library.Word" "HOL-Library.Monad_Syntax"
begin

section \<open>Data model\<close>

text \<open>
  The application is one React component (\<^verbatim>\<open>src/App.tsx\<close>). Its \<^verbatim>\<open>useState\<close> cells and the
  canvas ref form the application state; the three asynchronous handlers and the upload
  handler are state transformers. Everything the browser or the remote model decides (what
  a promise settles to, which container types the recorder supports, the animation-frame
  timestamps, the values of \<^verbatim>\<open>Math.random\<close>) is an explicit argument. JavaScript numbers are
  modelled as reals, with the two special values the code inspects (\<^verbatim>\<open>NaN\<close>, \<^verbatim>\<open>Infinity\<close>) as
  separate constructors where they can occur. Browser calls that the source does not guard
  are taken to succeed.
\<close>

type_synonym byte = "8 word"

text \<open>A \<^verbatim>\<open>Blob\<close> (a \<^verbatim>\<open>File\<close> is one): its bytes and its \<^verbatim>\<open>type\<close> string.\<close>

record blob =
  content :: "byte list"
  blob_type :: string

text \<open>\<^verbatim>\<open>new Blob(parts, { type })\<close> concatenates the parts.\<close>

definition Blob :: "byte list list \<Rightarrow> string \<Rightarrow> blob" where
  "Blob parts t = \<lparr>content = concat parts, blob_type = t\<rparr>"

text \<open>An object URL is a handle on the blob it was created from; it is never empty.\<close>

datatype object_url = ObjectURL blob

definition createObjectURL :: "blob \<Rightarrow> object_url" where
  "createObjectURL b = ObjectURL b"

datatype media_type = Image | Video

record media_source =
  url :: object_url
  type :: media_type

text \<open>
  \<^verbatim>\<open>ProductInfo\<close> is whatever \<^verbatim>\<open>JSON.parse\<close> made of the model's answer, so the fields the
  code reads defensively (\<^verbatim>\<open>data.headline || ""\<close>, \<^verbatim>\<open>productInfo?.script\<close>,
  \<^verbatim>\<open>productInfo.animationType || 'panning'\<close>) may be absent and may hold any string.
\<close>

record product_info =
  name :: string
  description :: string
  features :: "string list"
  script :: "string option"
  headline :: "string option"
  animationType :: "string option"

datatype script_type = Auto | Manual
datatype gender = Male | Female

text \<open>
  The messages passed to \<^verbatim>\<open>setError\<close>: the analysis message carries \<^verbatim>\<open>err.message\<close> when
  there is one, the narration message is constant, and \<^verbatim>\<open>startRecording\<close> stores the message
  of one of its two rejection errors.
\<close>

datatype error_message =
    AnalysisError "string option"
  | NarrationError
  | AudioLoadError
  | AudioLoadTimeout

record canvas =
  width :: nat
  height :: nat

record app_state =
  mediaSource :: "media_source option"
  userProductDescription :: string
  manualHeadline :: string
  manualScript :: string
  activeScriptType :: script_type
  voiceGender :: gender
  isAnalyzing :: bool
  isGeneratingAudio :: bool
  isRecording :: bool
  productInfo :: "product_info option"
  audioUrl :: "object_url option"
  videoBlobUrl :: "object_url option"
  error :: "error_message option"
  recordingProgress :: real
  useBackgroundMusic :: bool
  canvasRef :: "canvas option"

text \<open>The initial values of the \<^verbatim>\<open>useState\<close> cells; the canvas is not mounted yet.\<close>

definition initial_state :: app_state where
  "initial_state =
     \<lparr>mediaSource = None,
      userProductDescription = [],
      manualHeadline = [],
      manualScript = [],
      activeScriptType = Auto,
      voiceGender = Female,
      isAnalyzing = False,
      isGeneratingAudio = False,
      isRecording = False,
      productInfo = None,
      audioUrl = None,
      videoBlobUrl = None,
      error = None,
      recordingProgress = 0,
      useBackgroundMusic = True,
      canvasRef = None\<rparr>"

text \<open>JavaScript truthiness of a possibly absent string, and \<^verbatim>\<open>v || d\<close> on it.\<close>

definition truthy :: "string option \<Rightarrow> bool" where
  "truthy v = (case v of None \<Rightarrow> False | Some t \<Rightarrow> t \<noteq> '''')"

definition or_else :: "string option \<Rightarrow> string \<Rightarrow> string" where
  "or_else v d = (case v of None \<Rightarrow> d | Some t \<Rightarrow> if t \<noteq> '''' then t else d)"

definition startsWith :: "string \<Rightarrow> string \<Rightarrow> bool" where
  "startsWith t p = (take (length p) t = p)"

section \<open>Media upload\<close>

text \<open>
  \<^verbatim>\<open>handleMediaUpload\<close>: \<^verbatim>\<open>e.target.files?.[0]\<close> is the optional argument.
\<close>

definition handleMediaUpload :: "blob option \<Rightarrow> app_state \<Rightarrow> app_state" where
  "handleMediaUpload file s =
     (case file of
        None \<Rightarrow> s
      | Some f \<Rightarrow>
          let type = (if startsWith (blob_type f) ''video/'' then Video else Image);
              url = createObjectURL f
          in s\<lparr>mediaSource := Some \<lparr>url = url, type = type\<rparr>,
               productInfo := None,
               audioUrl := None,
               videoBlobUrl := None,
               error := None\<rparr>)"

section \<open>Product analysis\<close>

text \<open>
  What the \<^verbatim>\<open>try\<close> block of \<^verbatim>\<open>analyzeProduct\<close> comes to: the parsed answer, an exception with
  its optional \<^verbatim>\<open>message\<close>, or an awaited promise that never settles (the frame extraction
  waits for \<^verbatim>\<open>onseeked\<close> without an error path).
\<close>

datatype analysis_outcome =
    AnalysisData product_info
  | AnalysisThrows "string option"
  | AnalysisPending

text \<open>The state once the synchronous prefix has run, up to the first \<^verbatim>\<open>await\<close>.\<close>

definition analyzeProduct_begin :: "app_state \<Rightarrow> app_state" where
  "analyzeProduct_begin s =
     (case mediaSource s of
        None \<Rightarrow> s
      | Some m \<Rightarrow> s\<lparr>isAnalyzing := True, error := None\<rparr>)"

text \<open>The whole call; \<open>None\<close> means that it never returns.\<close>

definition analyzeProduct :: "analysis_outcome \<Rightarrow> app_state \<Rightarrow> app_state option" where
  "analyzeProduct outcome s =
     (case mediaSource s of
        None \<Rightarrow> Some s
      | Some m \<Rightarrow>
          let s1 = analyzeProduct_begin s in
          (case outcome of
             AnalysisData data \<Rightarrow>
               Some (s1\<lparr>productInfo := Some data,
                        manualHeadline := or_else (headline data) '''',
                        manualScript := or_else (script data) '''',
                        isAnalyzing := False\<rparr>)
           | AnalysisThrows msg \<Rightarrow>
               Some (s1\<lparr>error := Some (AnalysisError msg), isAnalyzing := False\<rparr>)
           | AnalysisPending \<Rightarrow> None))"

section \<open>Narration audio and the WAV header\<close>

text \<open>
  A \<^verbatim>\<open>DataView\<close> over an \<^verbatim>\<open>ArrayBuffer\<close> is a list of bytes. \<^verbatim>\<open>setUint32\<close> and \<^verbatim>\<open>setUint16\<close>
  reduce the number modulo \<open>2^32\<close> resp. \<open>2^16\<close> (only the low bytes are stored), write it
  in the requested byte order, and raise \<^verbatim>\<open>RangeError\<close> (here \<open>None\<close>) outside the buffer.
\<close>

fun le_bytes :: "nat \<Rightarrow> nat \<Rightarrow> byte list" where
  "le_bytes 0 v = []"
| "le_bytes (Suc k) v = of_nat (v mod 256) # le_bytes k (v div 256)"

definition store :: "nat \<Rightarrow> byte list \<Rightarrow> byte list \<Rightarrow> byte list" where
  "store byteOffset bs view = take byteOffset view @ bs @ drop (byteOffset + length bs) view"

definition setUint :: "nat \<Rightarrow> nat \<Rightarrow> nat \<Rightarrow> bool \<Rightarrow> byte list \<Rightarrow> byte list option" where
  "setUint k byteOffset v littleEndian view =
     (if byteOffset + k \<le> length view
      then Some (store byteOffset (if littleEndian then le_bytes k v else rev (le_bytes k v)) view)
      else None)"

definition setUint32 :: "nat \<Rightarrow> nat \<Rightarrow> bool \<Rightarrow> byte list \<Rightarrow> byte list option" where
  "setUint32 = setUint 4"

definition setUint16 :: "nat \<Rightarrow> nat \<Rightarrow> bool \<Rightarrow> byte list \<Rightarrow> byte list option" where
  "setUint16 = setUint 2"

text \<open>
  The thirteen writes of \<^verbatim>\<open>generateAudio\<close> into \<^verbatim>\<open>new ArrayBuffer(44)\<close>, in source order;
  the argument is \<^verbatim>\<open>bytes.length\<close>.
\<close>

definition wavHeader :: "nat \<Rightarrow> byte list option" where
  "wavHeader bytes_length = do {
     v0 \<leftarrow> Some (replicate 44 0);
     v1 \<leftarrow> setUint32 0 0x52494646 False v0;
     v2 \<leftarrow> setUint32 4 (36 + bytes_length) True v1;
     v3 \<leftarrow> setUint32 8 0x57415645 False v2;
     v4 \<leftarrow> setUint32 12 0x666d7420 False v3;
     v5 \<leftarrow> setUint32 16 16 True v4;
     v6 \<leftarrow> setUint16 20 1 True v5;
     v7 \<leftarrow> setUint16 22 1 True v6;
     v8 \<leftarrow> setUint32 24 24000 True v7;
     v9 \<leftarrow> setUint32 28 (24000 * 2) True v8;
     v10 \<leftarrow> setUint16 32 2 True v9;
     v11 \<leftarrow> setUint16 34 16 True v10;
     v12 \<leftarrow> setUint32 36 0x64617461 False v11;
     setUint32 40 bytes_length True v12
   }"

text \<open>
  \<^verbatim>\<open>for (let i = 0; i < len; i++) bytes[i] = binaryString.charCodeAt(i)\<close> on a fresh
  \<^verbatim>\<open>Uint8Array(len)\<close>. The string returned by \<^verbatim>\<open>atob\<close> has one character per byte.
\<close>

function fill_bytes :: "nat \<Rightarrow> nat \<Rightarrow> string \<Rightarrow> byte list \<Rightarrow> byte list" where
  "fill_bytes i len binaryString bytes =
     (if i < len
      then fill_bytes (i + 1) len binaryString
             (bytes[i := of_nat (of_char (binaryString ! i))])
      else bytes)"
  by pat_completeness auto
termination
  by (relation "measure (\<lambda>(i, len, binaryString, bytes). len - i)") auto

declare fill_bytes.simps [simp del]

definition decode_bytes :: "string \<Rightarrow> byte list" where
  "decode_bytes binaryString =
     (let len = length binaryString in fill_bytes 0 len binaryString (replicate len 0))"

definition wav_blob :: "string \<Rightarrow> blob option" where
  "wav_blob binaryString =
     (let bytes = decode_bytes binaryString in
      do { wavHeader \<leftarrow> wavHeader (length bytes);
           Some (Blob [wavHeader, bytes] ''audio/wav'') })"

text \<open>
  What the \<^verbatim>\<open>try\<close> block of \<^verbatim>\<open>generateAudio\<close> gets: an exception (from the request or from
  \<^verbatim>\<open>atob\<close>), an answer without inline audio, the decoded binary string, or nothing ever.
\<close>

datatype tts_outcome =
    TtsThrows
  | TtsNoAudio
  | TtsDecoded string
  | TtsPending

definition scriptToUse :: "app_state \<Rightarrow> string option" where
  "scriptToUse s =
     (case activeScriptType s of
        Auto \<Rightarrow> (case productInfo s of None \<Rightarrow> None | Some p \<Rightarrow> script p)
      | Manual \<Rightarrow> Some (manualScript s))"

definition generateAudio_begin :: "app_state \<Rightarrow> app_state" where
  "generateAudio_begin s =
     (if \<not> truthy (scriptToUse s) then s
      else s\<lparr>isGeneratingAudio := True, error := None\<rparr>)"

definition generateAudio :: "tts_outcome \<Rightarrow> app_state \<Rightarrow> app_state option" where
  "generateAudio outcome s =
     (if \<not> truthy (scriptToUse s) then Some s
      else
        let s1 = generateAudio_begin s in
        (case outcome of
           TtsThrows \<Rightarrow> Some (s1\<lparr>error := Some NarrationError, isGeneratingAudio := False\<rparr>)
         | TtsNoAudio \<Rightarrow> Some (s1\<lparr>isGeneratingAudio := False\<rparr>)
         | TtsDecoded binaryString \<Rightarrow>
             (case wav_blob binaryString of
                None \<Rightarrow> Some (s1\<lparr>error := Some NarrationError, isGeneratingAudio := False\<rparr>)
              | Some blob \<Rightarrow>
                  Some (s1\<lparr>audioUrl := Some (createObjectURL blob),
                           isGeneratingAudio := False\<rparr>))
         | TtsPending \<Rightarrow> None))"





section \<open>Recorder MIME type selection\<close>

text \<open>
  \<^verbatim>\<open>getSupportedMimeType\<close> (inside \<^verbatim>\<open>startRecording\<close>) walks a constant list of candidate
  container types in order and returns the first one the browser's
  \<^verbatim>\<open>MediaRecorder.isTypeSupported\<close> accepts, or the empty string. The browser predicate is a
  parameter of the model.
\<close>

definition types :: "string list" where
  "types = [''video/webm;codecs=vp9,opus'', ''video/webm;codecs=vp8,opus'',
            ''video/webm'', ''video/mp4'']"

text \<open>The \<^verbatim>\<open>for (const type of types) if (...) return type; return ''\<close> loop.\<close>

fun first_supported :: "(string \<Rightarrow> bool) \<Rightarrow> string list \<Rightarrow> string" where
  "first_supported isTypeSupported [] = ''''"
| "first_supported isTypeSupported (t # ts) =
     (if isTypeSupported t then t else first_supported isTypeSupported ts)"

definition getSupportedMimeType :: "(string \<Rightarrow> bool) \<Rightarrow> string" where
  "getSupportedMimeType isTypeSupported = first_supported isTypeSupported types"

section \<open>Recording: the objects \<^verbatim>\<open>startRecording\<close> creates\<close>

text \<open>An audio element, as far as the code configures and drives it.\<close>

datatype media_src = BlobSrc object_url | RemoteSrc string

record audio_element =
  src :: media_src
  crossOrigin :: "string option"
  volume :: real
  loop :: bool
  paused :: bool

definition Audio :: "media_src \<Rightarrow> audio_element" where
  "Audio u = \<lparr>src = u, crossOrigin = None, volume = 1, loop = False, paused = True\<rparr>"

definition BGM_URL :: string where
  "BGM_URL = ''https://www.soundhelix.com/examples/mp3/SoundHelix-Song-1.mp3''"

text \<open>
  The audio graph: the two media-element sources and the two nodes they are connected to,
  the stream destination \<^verbatim>\<open>dest\<close> and the context's own output \<^verbatim>\<open>audioCtx.destination\<close>.
\<close>

datatype audio_node = VoiceSource | BgmSource
datatype audio_target = Dest | Speakers

text \<open>
  Media stream tracks: the video track of \<^verbatim>\<open>canvas.captureStream(fps)\<close> and the audio track
  of \<^verbatim>\<open>dest.stream\<close>. A stream is its list of tracks.
\<close>

datatype track = CanvasVideoTrack nat | DestAudioTrack

fun is_video :: "track \<Rightarrow> bool" where
  "is_video (CanvasVideoTrack fps) = True"
| "is_video DestAudioTrack = False"

definition getVideoTracks :: "track list \<Rightarrow> track list" where
  "getVideoTracks tracks = filter is_video tracks"

definition getAudioTracks :: "track list \<Rightarrow> track list" where
  "getAudioTracks tracks = filter (\<lambda>t. \<not> is_video t) tracks"

definition captureStream :: "nat \<Rightarrow> track list" where
  "captureStream fps = [CanvasVideoTrack fps]"

definition dest_stream :: "track list" where
  "dest_stream = [DestAudioTrack]"

definition MediaStream :: "track list \<Rightarrow> track list" where
  "MediaStream tracks = tracks"

datatype recorder_state = Inactive | Recording

record media_recorder =
  stream :: "track list"
  mimeType :: string
  state :: recorder_state

text \<open>The loaded asset: an image, or a muted looping video with its \<^verbatim>\<open>paused\<close> flag.\<close>

datatype asset = ImageElement | VideoElement bool

fun pause_asset :: "asset \<Rightarrow> asset" where
  "pause_asset ImageElement = ImageElement"
| "pause_asset (VideoElement p) = VideoElement True"

section \<open>Recording: timing\<close>

text \<open>
  \<^verbatim>\<open>audio.duration\<close> is \<^verbatim>\<open>NaN\<close>, \<^verbatim>\<open>Infinity\<close> or a number of seconds. The recording length is
  \<^verbatim>\<open>(audioDuration && !isNaN(audioDuration) ? audioDuration : 10) * 1000 + 1500\<close>; the guard
  replaces \<^verbatim>\<open>NaN\<close> and \<open>0\<close> by ten seconds and lets \<^verbatim>\<open>Infinity\<close> through, which stays infinite.
\<close>

datatype media_duration = NaN | PosInfinity | Seconds real

datatype millis = Millis real | Unbounded

definition duration_of :: "media_duration \<Rightarrow> millis" where
  "duration_of audioDuration =
     (case audioDuration of
        NaN \<Rightarrow> Millis (10 * 1000 + 1500)
      | PosInfinity \<Rightarrow> Unbounded
      | Seconds a \<Rightarrow> Millis ((if a \<noteq> 0 then a else 10) * 1000 + 1500))"

text \<open>
  \<^verbatim>\<open>Math.min(elapsed / duration, 1)\<close>; a finite number divided by \<^verbatim>\<open>Infinity\<close> is zero.
  A length of 0 would need a media duration of -1.5 seconds, which no media element
  reports; the properties below that divide assume a positive length.
\<close>

definition ratio :: "real \<Rightarrow> millis \<Rightarrow> real" where
  "ratio elapsed d = (case d of Millis D \<Rightarrow> elapsed / D | Unbounded \<Rightarrow> 0)"

definition progress_of :: "real \<Rightarrow> millis \<Rightarrow> real" where
  "progress_of elapsed d = min (ratio elapsed d) 1"

text \<open>
  A recording length the division is meant for: the media duration is never negative, so
  the length is at least the 1500 ms buffer, or infinite.
\<close>

definition positive_duration :: "millis \<Rightarrow> bool" where
  "positive_duration d = (case d of Millis D \<Rightarrow> 0 < D | Unbounded \<Rightarrow> True)"

section \<open>Recording: animation\<close>

text \<open>
  The transform of one frame, \<^verbatim>\<open>let x = 0, y = 0, s = 1.1\<close> followed by the
  \<^verbatim>\<open>if / else if\<close> chain on \<^verbatim>\<open>animType\<close>; \<open>r1\<close> and \<open>r2\<close> are the two values of
  \<^verbatim>\<open>Math.random()\<close> the vibrating branch draws. The result is \<open>(x, y, s)\<close>.
\<close>

definition animate :: "string option \<Rightarrow> real \<Rightarrow> real \<Rightarrow> real \<Rightarrow> real \<times> real \<times> real" where
  "animate animation_type progress r1 r2 =
     (let animType = or_else animation_type ''panning'' in
      if animType = ''panning'' then (sin (progress * pi) * 50, 0, 1.1)
      else if animType = ''bouncing'' then (0, sin (progress * pi * 4) * 30, 1.1)
      else if animType = ''vibrating'' then ((r1 - 0.5) * 10, (r2 - 0.5) * 10, 1.1)
      else if animType = ''sliding'' then (- 100 + progress * 200, 0, 1.1)
      else (0, 0, 1.1))"

section \<open>Recording: the draw callback and the frame loop\<close>

text \<open>
  The variables the \<^verbatim>\<open>draw\<close> closure and the recorder handlers share, together with the
  application state they update. \<open>offset\<close> is the transform of the last painted frame and
  \<open>frame_requested\<close> says whether \<^verbatim>\<open>requestAnimationFrame(draw)\<close> is outstanding.
\<close>

record session =
  app :: app_state
  info :: product_info
  audio :: audio_element
  bgm :: "audio_element option"
  connections :: "(audio_node \<times> audio_target) list"
  audioCtx_closed :: bool
  recorder :: media_recorder
  chunks :: "blob list"
  asset :: asset
  startTime :: real
  duration :: millis
  offset :: "real \<times> real \<times> real"
  frame_requested :: bool

text \<open>What the browser passes to one frame: the timestamp and the random numbers.\<close>

record frame =
  timestamp :: real
  random1 :: real
  random2 :: real

definition draw :: "frame \<Rightarrow> session \<Rightarrow> session" where
  "draw f c =
     (let start = (if startTime c = 0 then timestamp f else startTime c);
          elapsed = timestamp f - start;
          progress = progress_of elapsed (duration c);
          c1 = c\<lparr>startTime := start,
                 app := (app c)\<lparr>recordingProgress := progress * 100\<rparr>,
                 offset := animate (animationType (info c)) progress (random1 f) (random2 f)\<rparr>
      in if progress < 1 then c1\<lparr>frame_requested := True\<rparr>
         else c1\<lparr>recorder := (recorder c1)\<lparr>state := Inactive\<rparr>,
                 audio := (audio c1)\<lparr>paused := True\<rparr>,
                 bgm := map_option (\<lambda>b. b\<lparr>paused := True\<rparr>) (bgm c1),
                 asset := pause_asset (asset c1),
                 frame_requested := False\<rparr>)"

text \<open>
  The browser's side of \<^verbatim>\<open>requestAnimationFrame\<close>: as long as a callback is outstanding,
  call it with the next frame. The loop need not end; \<open>None\<close> is the run that never does.
\<close>

partial_function (option) animation_loop :: "(nat \<Rightarrow> frame) \<Rightarrow> nat \<Rightarrow> session \<Rightarrow> session option" where
  "animation_loop fs i c =
     (if frame_requested c then animation_loop fs (Suc i) (draw (fs i) c) else Some c)"

text \<open>The session after at most \<open>n\<close> frames have been delivered.\<close>

fun after_frames :: "(nat \<Rightarrow> frame) \<Rightarrow> nat \<Rightarrow> session \<Rightarrow> session" where
  "after_frames fs 0 c = c"
| "after_frames fs (Suc n) c =
     (let c' = after_frames fs n c in if frame_requested c' then draw (fs n) c' else c')"

text \<open>
  \<^verbatim>\<open>recorder.stop()\<close> makes the recorder deliver its data through
  \<^verbatim>\<open>ondataavailable\<close> (\<^verbatim>\<open>chunks.push(e.data)\<close>) and then fire \<^verbatim>\<open>onstop\<close>.
\<close>

definition ondataavailable :: "blob \<Rightarrow> session \<Rightarrow> session" where
  "ondataavailable data c = c\<lparr>chunks := chunks c @ [data]\<rparr>"

definition onstop :: "session \<Rightarrow> session" where
  "onstop c =
     (let blob = Blob (map content (chunks c)) (mimeType (recorder c)) in
      c\<lparr>app := (app c)\<lparr>videoBlobUrl := Some (createObjectURL blob), isRecording := False\<rparr>,
        audioCtx_closed := True\<rparr>)"

definition stop_events :: "blob list \<Rightarrow> session \<Rightarrow> session" where
  "stop_events recorded c = onstop (fold ondataavailable recorded c)"

section \<open>Recording: \<^verbatim>\<open>startRecording\<close>\<close>

text \<open>
  The environment of one call: how the wait for the narration metadata ends (loaded with a
  duration, \<^verbatim>\<open>onerror\<close>, or the five-second timeout), whether
  \<^verbatim>\<open>createMediaElementSource(bgm)\<close> throws, the recorder's support predicate, whether the
  asset ever fires its load event, the frames, and the data the recorder hands out.
\<close>

datatype audio_load = MetadataLoaded media_duration | AudioError | AudioTimeout

record environment =
  audio_load :: audio_load
  bgm_source_throws :: bool
  type_supported :: "string \<Rightarrow> bool"
  asset_loads :: bool
  frames :: "nat \<Rightarrow> frame"
  recorded :: "blob list"

definition startRecording_begin :: "app_state \<Rightarrow> app_state" where
  "startRecording_begin s = s\<lparr>isRecording := True, recordingProgress := 0, videoBlobUrl := None\<rparr>"

text \<open>
  The background-music block: the element (or \<^verbatim>\<open>null\<close>) and the connections it adds.
\<close>

definition background_music ::
    "bool \<Rightarrow> bool \<Rightarrow> audio_element option \<times> (audio_node \<times> audio_target) list" where
  "background_music use_bgm throws =
     (if use_bgm
      then let b = (Audio (RemoteSrc BGM_URL))
                     \<lparr>crossOrigin := Some ''anonymous'', volume := 0.15, loop := True\<rparr>
           in if throws then (None, [])
              else (Some b, [(BgmSource, Dest), (BgmSource, Speakers)])
      else (None, []))"

text \<open>
  Everything between the loaded narration and the first animation-frame request: audio
  graph, combined stream, recorder, asset, duration, and the four calls
  \<^verbatim>\<open>recorder.start()\<close>, \<^verbatim>\<open>audio.play()\<close>, \<^verbatim>\<open>if (bgm) bgm.play()\<close>,
  \<^verbatim>\<open>requestAnimationFrame(draw)\<close>. The wait for the asset is decided by the caller
  (\<^verbatim>\<open>startRecording\<close> below); a suspended audio context is taken to resume.
\<close>

definition recording_session ::
    "environment \<Rightarrow> object_url \<Rightarrow> media_source \<Rightarrow> product_info \<Rightarrow> media_duration
      \<Rightarrow> app_state \<Rightarrow> session" where
  "recording_session env audio_url media p audioDuration s1 =
     (let voice = (Audio (BlobSrc audio_url))\<lparr>crossOrigin := Some ''anonymous''\<rparr>;
          voice_connections = [(VoiceSource, Dest), (VoiceSource, Speakers)];
          (music, music_connections) =
             background_music (useBackgroundMusic s1) (bgm_source_throws env);
          canvasStream = captureStream 30;
          combinedStream = MediaStream (getVideoTracks canvasStream @ getAudioTracks dest_stream);
          mime = getSupportedMimeType (type_supported env);
          rec = \<lparr>stream = combinedStream, mimeType = mime, state = Inactive\<rparr>;
          loaded = (case type media of Image \<Rightarrow> ImageElement | Video \<Rightarrow> VideoElement False)
      in \<lparr>app = s1,
          info = p,
          audio = voice\<lparr>paused := False\<rparr>,
          bgm = map_option (\<lambda>b. b\<lparr>paused := False\<rparr>) music,
          connections = voice_connections @ music_connections,
          audioCtx_closed = False,
          recorder = rec\<lparr>state := Recording\<rparr>,
          chunks = [],
          asset = loaded,
          startTime = 0,
          duration = duration_of audioDuration,
          offset = (0, 0, 1.1),
          frame_requested = True\<rparr>)"

text \<open>The whole call; \<open>None\<close> means that the recording never finishes.\<close>

definition startRecording :: "environment \<Rightarrow> app_state \<Rightarrow> app_state option" where
  "startRecording env s =
     (case canvasRef s of None \<Rightarrow> Some s | Some cv \<Rightarrow>
     (case audioUrl s of None \<Rightarrow> Some s | Some audio_url \<Rightarrow>
     (case mediaSource s of None \<Rightarrow> Some s | Some media \<Rightarrow>
     (case productInfo s of None \<Rightarrow> Some s | Some p \<Rightarrow>
        (let s1 = startRecording_begin s in
         (case audio_load env of
            AudioError \<Rightarrow> Some (s1\<lparr>error := Some AudioLoadError, isRecording := False\<rparr>)
          | AudioTimeout \<Rightarrow> Some (s1\<lparr>error := Some AudioLoadTimeout, isRecording := False\<rparr>)
          | MetadataLoaded audioDuration \<Rightarrow>
              (if \<not> asset_loads env then None
               else
                 (case animation_loop (frames env) 0
                         (recording_session env audio_url media p audioDuration s1) of
                    None \<Rightarrow> None
                  | Some c \<Rightarrow> Some (app (stop_events (recorded env) c))))))))))"

section \<open>Predicates used in the properties\<close>

text \<open>
  The state of the progress display relative to the frame clock \<open>fs\<close> after \<open>n\<close> frames
  of a recording of length \<open>d\<close>: either no non-zero timestamp has been seen yet and the
  display is at 0, or the start time is latched, some earlier frame \<open>m\<close> is not before it,
  and the display shows that frame's progress.
\<close>

definition on_clock :: "(nat \<Rightarrow> frame) \<Rightarrow> nat \<Rightarrow> millis \<Rightarrow> session \<Rightarrow> bool" where
  "on_clock fs n d c =
     (duration c = d
      \<and> ((startTime c = 0 \<and> recordingProgress (app c) = 0)
          \<or> (startTime c \<noteq> 0
              \<and> (\<exists>m<n. startTime c \<le> timestamp (fs m)
                    \<and> recordingProgress (app c)
                        = min (ratio (timestamp (fs m) - startTime c) d) 1 * 100))))"

text \<open>No operation in flight: the three busy flags are down.\<close>

definition idle :: "app_state \<Rightarrow> bool" where
  "idle s = (\<not> isAnalyzing s \<and> \<not> isGeneratingAudio s \<and> \<not> isRecording s)"

text \<open>The guard of \<^verbatim>\<open>startRecording\<close> lets the call through.\<close>

definition recording_ready :: "app_state \<Rightarrow> bool" where
  "recording_ready s =
     (canvasRef s \<noteq> None \<and> audioUrl s \<noteq> None \<and> mediaSource s \<noteq> None \<and> productInfo s \<noteq> None)"

text \<open>The same session with another value in the music flag of its application state.\<close>

definition with_music_flag :: "bool \<Rightarrow> session \<Rightarrow> session" where
  "with_music_flag b c = c\<lparr>app := (app c)\<lparr>useBackgroundMusic := b\<rparr>\<rparr>"

section \<open>Sample inputs\<close>

text \<open>
  A product, a state in which all three stages have produced their output, a frame clock
  ticking once a second from 16 ms on, and an environment in which everything loads.
\<close>

definition sample_product :: product_info where
  "sample_product =
     \<lparr>name = ''Mug'', description = ''A mug'', features = [],
      script = Some ''Look at this mug'', headline = Some ''Look'',
      animationType = Some ''sliding''\<rparr>"

definition sample_audio :: blob where
  "sample_audio = \<lparr>content = [], blob_type = ''audio/wav''\<rparr>"

definition sample_ready :: app_state where
  "sample_ready =
     initial_state
       \<lparr>mediaSource := Some \<lparr>url = ObjectURL \<lparr>content = [], blob_type = ''video/mp4''\<rparr>,
                             type = Video\<rparr>,
        productInfo := Some sample_product,
        audioUrl := Some (ObjectURL sample_audio),
        canvasRef := Some \<lparr>width = 1080, height = 1920\<rparr>\<rparr>"

definition sample_frames :: "nat \<Rightarrow> frame" where
  "sample_frames i = \<lparr>timestamp = 16 + 1000 * real i, random1 = 0, random2 = 0\<rparr>"


definition sample_environment :: environment where
  "sample_environment =
     \<lparr>audio_load = MetadataLoaded (Seconds 1),
      bgm_source_throws = False,
      type_supported = (\<lambda>t. t = ''video/webm'' \<or> t = ''video/mp4''),
      asset_loads = True,
      frames = sample_frames,
      recorded = [\<lparr>content = [1, 2, 3], blob_type = ''video/webm''\<rparr>]\<rparr>"

text \<open>The session of the sample recording when its first frame is requested.\<close>

definition sample_session :: session where
  "sample_session =
     recording_session sample_environment (ObjectURL sample_audio)
       \<lparr>url = ObjectURL \<lparr>content = [], blob_type = ''video/mp4''\<rparr>, type = Video\<rparr>
       sample_product (Seconds 1) (startRecording_begin sample_ready)"

section \<open>Properties of the MIME type selection\<close>

lemma first_supported_find:
  "first_supported p ts = (case List.find p ts of None \<Rightarrow> '''' | Some t \<Rightarrow> t)"
  by (induction ts) simp_all

lemma first_supported_cases:
  "(first_supported p ts = '''' \<and> (\<forall>t\<in>set ts. p t \<longrightarrow> t = ''''))
   \<or> (first_supported p ts \<in> set ts \<and> p (first_supported p ts))"
  by (induction ts) auto

lemma first_supported_priority:
  "i < length ts \<Longrightarrow> p (ts ! i) \<Longrightarrow>
   \<exists>k\<le>i. first_supported p ts = ts ! k \<and> p (ts ! k) \<and> (\<forall>j<k. \<not> p (ts ! j))"
proof (induction ts arbitrary: i)
  case Nil
  then show ?case by simp
next
  case (Cons t ts)
  show ?case
  proof (cases "p t")
    case True
    then have "first_supported p (t # ts) = (t # ts) ! 0 \<and> p ((t # ts) ! 0)
               \<and> (\<forall>j<0. \<not> p ((t # ts) ! j))"
      by simp
    then show ?thesis by blast
  next
    case False
    with Cons.prems obtain i' where i': "i = Suc i'"
      by (cases i) auto
    with Cons.prems have "i' < length ts" "p (ts ! i')" by simp_all
    from Cons.IH [OF this] obtain k where
      k: "k \<le> i'" "first_supported p ts = ts ! k" "p (ts ! k)" "\<forall>j<k. \<not> p (ts ! j)"
      by blast
    have "\<forall>j<Suc k. \<not> p ((t # ts) ! j)"
      using False k(4) by (auto simp: less_Suc_eq_0_disj)
    with k i' False have "Suc k \<le> i \<and> first_supported p (t # ts) = (t # ts) ! Suc k
        \<and> p ((t # ts) ! Suc k) \<and> (\<forall>j<Suc k. \<not> p ((t # ts) ! j))"
      by simp
    then show ?thesis by blast
  qed
qed

lemma empty_not_candidate: "'''' \<notin> set types"
  by (simp add: types_def)

text \<open>
  Claim C10. For any support predicate, \<^verbatim>\<open>getSupportedMimeType\<close> returns the first
  candidate of the ordered list that the predicate accepts and the empty string when it
  accepts none. Hence a non-empty result is a supported candidate, and whenever the
  candidate at position \<open>i\<close> is supported the result is a supported candidate at a position
  \<open>k \<le> i\<close> before which nothing is supported: a lower-priority candidate is never chosen
  over a supported higher-priority one.
\<close>

theorem getSupportedMimeType_first_supported:
  "getSupportedMimeType isTypeSupported = (case List.find isTypeSupported types of None \<Rightarrow> '''' | Some t \<Rightarrow> t)
   \<and> ((\<forall>t\<in>set types. \<not> isTypeSupported t) \<longrightarrow> getSupportedMimeType isTypeSupported = '''')
   \<and> (getSupportedMimeType isTypeSupported \<noteq> '''' \<longrightarrow>
        getSupportedMimeType isTypeSupported \<in> set types \<and> isTypeSupported (getSupportedMimeType isTypeSupported))
   \<and> (\<forall>i<length types. isTypeSupported (types ! i) \<longrightarrow>
        (\<exists>k\<le>i. getSupportedMimeType isTypeSupported = types ! k \<and> isTypeSupported (types ! k)
               \<and> (\<forall>j<k. \<not> isTypeSupported (types ! j))))"
proof -
  have a: "getSupportedMimeType isTypeSupported = (case List.find isTypeSupported types of None \<Rightarrow> '''' | Some t \<Rightarrow> t)"
    unfolding getSupportedMimeType_def by (rule first_supported_find)
  have b: "(\<forall>t\<in>set types. \<not> isTypeSupported t) \<longrightarrow> getSupportedMimeType isTypeSupported = ''''"
    using first_supported_cases [of isTypeSupported types] unfolding getSupportedMimeType_def by blast
  have c: "getSupportedMimeType isTypeSupported \<noteq> '''' \<longrightarrow>
        getSupportedMimeType isTypeSupported \<in> set types \<and> isTypeSupported (getSupportedMimeType isTypeSupported)"
    using first_supported_cases [of isTypeSupported types] unfolding getSupportedMimeType_def by blast
  have d: "\<forall>i<length types. isTypeSupported (types ! i) \<longrightarrow>
        (\<exists>k\<le>i. getSupportedMimeType isTypeSupported = types ! k \<and> isTypeSupported (types ! k)
               \<and> (\<forall>j<k. \<not> isTypeSupported (types ! j)))"
    unfolding getSupportedMimeType_def using first_supported_priority [of _ types isTypeSupported] by blast
  from a b c d show ?thesis by blast
qed

theorem getSupportedMimeType_first_supported_witness:
  "getSupportedMimeType (\<lambda>t. t = ''video/webm'' \<or> t = ''video/mp4'') = ''video/webm''
   \<and> getSupportedMimeType (\<lambda>t. t = ''video/webm'' \<or> t = ''video/mp4'') \<noteq> ''''
   \<and> (3::nat) < length types
   \<and> types ! 3 = ''video/mp4''
   \<and> getSupportedMimeType (\<lambda>t. t = ''video/webm'' \<or> t = ''video/mp4'') = types ! 2
   \<and> getSupportedMimeType (\<lambda>t. False) = ''''"
  using getSupportedMimeType_first_supported [of "\<lambda>t. t = ''video/webm'' \<or> t = ''video/mp4''"]
    getSupportedMimeType_first_supported [of "\<lambda>t. False"]
  by (simp add: types_def)

section \<open>Properties of the media upload\<close>

lemma startsWith_iff: "startsWith t p \<longleftrightarrow> (\<exists>rest. t = p @ rest)"
  unfolding startsWith_def
  by (metis append_eq_conv_conj append_take_drop_id)

text \<open>
  Claim C8. Without a selected file \<^verbatim>\<open>handleMediaUpload\<close> changes nothing. With a file, the
  stored media type is video exactly when the file's MIME type begins with \<open>video/\<close> and
  image in every other case, the URL is the object URL of the file, and the product
  analysis, the audio URL, the video URL and the error are all reset to null. The
  description text, the manual headline and script, the voice gender and the script-type
  selection keep their values; indeed putting the five written cells back yields the old
  state, so no other cell is touched.
\<close>

theorem handleMediaUpload_frame:
  "handleMediaUpload None s = s
   \<and> (map_option type (mediaSource (handleMediaUpload (Some f) s)) = Some Video)
       = (\<exists>rest. blob_type f = ''video/'' @ rest)
   \<and> (map_option type (mediaSource (handleMediaUpload (Some f) s)) = Some Image)
       = (\<not> (\<exists>rest. blob_type f = ''video/'' @ rest))
   \<and> map_option url (mediaSource (handleMediaUpload (Some f) s)) = Some (createObjectURL f)
   \<and> productInfo (handleMediaUpload (Some f) s) = None
   \<and> audioUrl (handleMediaUpload (Some f) s) = None
   \<and> videoBlobUrl (handleMediaUpload (Some f) s) = None
   \<and> error (handleMediaUpload (Some f) s) = None
   \<and> userProductDescription (handleMediaUpload (Some f) s) = userProductDescription s
   \<and> manualHeadline (handleMediaUpload (Some f) s) = manualHeadline s
   \<and> manualScript (handleMediaUpload (Some f) s) = manualScript s
   \<and> voiceGender (handleMediaUpload (Some f) s) = voiceGender s
   \<and> activeScriptType (handleMediaUpload (Some f) s) = activeScriptType s
   \<and> (handleMediaUpload (Some f) s)
        \<lparr>mediaSource := mediaSource s, productInfo := productInfo s, audioUrl := audioUrl s,
         videoBlobUrl := videoBlobUrl s, error := error s\<rparr> = s"
  using startsWith_iff [of "blob_type f" "''video/''"]
  by (auto simp: handleMediaUpload_def Let_def)

section \<open>Properties of the frame loop\<close>

text \<open>
  The loop is a partial function. It returns exactly when some frame clears the request
  flag, and then it returns the session after that frame; a property that every frame
  preserves holds of the result.
\<close>

lemma animation_loop_invariant:
  assumes run: "animation_loop fs i c = Some c'"
    and step: "\<And>f c. P c \<Longrightarrow> frame_requested c \<Longrightarrow> P (draw f c)"
  shows "P c \<Longrightarrow> P c' \<and> \<not> frame_requested c'"
proof (induction rule: animation_loop.raw_induct [OF _ run])
  case (1 loop fs i c c')
  show ?case
  proof (cases "frame_requested c")
    case True
    with 1(2) have "loop fs (Suc i) (draw (fs i) c) = Some c'" by simp
    moreover have "P (draw (fs i) c)" using step 1(3) True by blast
    ultimately show ?thesis by (rule 1(1))
  next
    case False
    with 1(2,3) show ?thesis by simp
  qed
qed

lemma after_frames_shift:
  "frame_requested c \<Longrightarrow>
   after_frames g (Suc n) c = after_frames (\<lambda>j. g (Suc j)) n (draw (g 0) c)"
  by (induction n) (simp_all add: Let_def)

lemma after_frames_stopped: "\<not> frame_requested c \<Longrightarrow> after_frames g n c = c"
  by (induction n) (simp_all add: Let_def)

lemma animation_loop_reaches:
  "\<not> frame_requested (after_frames (\<lambda>j. fs (i + j)) n c) \<Longrightarrow>
   animation_loop fs i c = Some (after_frames (\<lambda>j. fs (i + j)) n c)"
proof (induction n arbitrary: i c)
  case 0
  then show ?case by (simp add: animation_loop.simps)
next
  case (Suc n)
  show ?case
  proof (cases "frame_requested c")
    case False
    then show ?thesis
      by (simp add: animation_loop.simps after_frames_stopped del: after_frames.simps)
  next
    case True
    have shift: "after_frames (\<lambda>j. fs (i + j)) (Suc n) c
                 = after_frames (\<lambda>j. fs (Suc i + j)) n (draw (fs i) c)"
      using after_frames_shift [OF True, of "\<lambda>j. fs (i + j)" n] by simp
    with Suc.prems have "\<not> frame_requested (after_frames (\<lambda>j. fs (Suc i + j)) n (draw (fs i) c))"
      by simp
    from Suc.IH [OF this] shift True show ?thesis
      by (subst animation_loop.simps) simp
  qed
qed

lemma animation_loop_stops_at:
  assumes run: "animation_loop fs i c = Some c'"
  shows "\<exists>n. c' = after_frames (\<lambda>j. fs (i + j)) n c \<and> \<not> frame_requested c'
             \<and> (\<forall>j<n. frame_requested (after_frames (\<lambda>j. fs (i + j)) j c))"
proof (induction rule: animation_loop.raw_induct [OF _ run])
  case (1 loop fs i c c')
  show ?case
  proof (cases "frame_requested c")
    case False
    with 1(2) have "c' = after_frames (\<lambda>j. fs (i + j)) 0 c \<and> \<not> frame_requested c'
        \<and> (\<forall>j<0. frame_requested (after_frames (\<lambda>j. fs (i + j)) j c))"
      by simp
    then show ?thesis by blast
  next
    case True
    with 1(2) have "loop fs (Suc i) (draw (fs i) c) = Some c'" by simp
    from 1(1) [OF this] obtain n where
      n: "c' = after_frames (\<lambda>j. fs (Suc i + j)) n (draw (fs i) c)" "\<not> frame_requested c'"
         "\<forall>j<n. frame_requested (after_frames (\<lambda>j. fs (Suc i + j)) j (draw (fs i) c))"
      by blast
    have shift: "after_frames (\<lambda>j. fs (i + j)) (Suc m) c
                 = after_frames (\<lambda>j. fs (Suc i + j)) m (draw (fs i) c)" for m
      using after_frames_shift [OF True, of "\<lambda>j. fs (i + j)" m] by simp
    have "\<forall>j<Suc n. frame_requested (after_frames (\<lambda>j. fs (i + j)) j c)"
    proof (intro allI impI)
      fix j assume "j < Suc n"
      show "frame_requested (after_frames (\<lambda>j. fs (i + j)) j c)"
      proof (cases j)
        case 0
        then show ?thesis using True by simp
      next
        case (Suc m)
        with \<open>j < Suc n\<close> n(3) have "frame_requested (after_frames (\<lambda>j. fs (Suc i + j)) m (draw (fs i) c))"
          by simp
        then show ?thesis unfolding Suc shift .
      qed
    qed
    with n(1,2) shift [of n]
    have "c' = after_frames (\<lambda>j. fs (i + j)) (Suc n) c \<and> \<not> frame_requested c'
        \<and> (\<forall>j<Suc n. frame_requested (after_frames (\<lambda>j. fs (i + j)) j c))"
      by simp
    then show ?thesis by blast
  qed
qed

lemma animation_loop_commute:
  assumes h_draw: "\<And>f c. draw f (h c) = h (draw f c)"
    and h_req: "\<And>c. frame_requested (h c) = frame_requested c"
  shows "animation_loop fs i (h c) = map_option h (animation_loop fs i c)"
proof -
  have h_after: "after_frames g n (h c) = h (after_frames g n c)" for g n
    by (induction n) (simp_all add: Let_def h_draw h_req)
  show ?thesis
  proof (cases "animation_loop fs i c")
    case (Some c')
    from animation_loop_stops_at [OF Some] obtain n where
      n: "c' = after_frames (\<lambda>j. fs (i + j)) n c" "\<not> frame_requested c'" by blast
    then have "\<not> frame_requested (after_frames (\<lambda>j. fs (i + j)) n (h c))"
      by (simp add: h_after h_req)
    from animation_loop_reaches [OF this] n(1) Some show ?thesis
      by (simp add: h_after)
  next
    case None
    have "animation_loop fs i (h c) = None"
    proof (rule ccontr)
      assume "animation_loop fs i (h c) \<noteq> None"
      then obtain d where d: "animation_loop fs i (h c) = Some d" by blast
      from animation_loop_stops_at [OF d] obtain n where
        "d = after_frames (\<lambda>j. fs (i + j)) n (h c)" "\<not> frame_requested d" by blast
      then have "\<not> frame_requested (after_frames (\<lambda>j. fs (i + j)) n c)"
        by (simp add: h_after h_req)
      from animation_loop_reaches [OF this] None show False by simp
    qed
    with None show ?thesis by simp
  qed
qed

section \<open>What the frame callback and the stop handlers leave alone\<close>

lemma draw_app:
  "app (draw f c) = (app c)\<lparr>recordingProgress := recordingProgress (app (draw f c))\<rparr>"
  by (simp add: draw_def Let_def)

lemma stop_events_app:
  "app (stop_events r c) =
     (app c)\<lparr>videoBlobUrl := videoBlobUrl (app (stop_events r c)), isRecording := False\<rparr>"
proof -
  have "app (fold ondataavailable r c) = app c" for c
    by (induction r arbitrary: c) (simp_all add: ondataavailable_def)
  then show ?thesis by (simp add: stop_events_def onstop_def Let_def)
qed

lemma draw_preserves_flags:
  "isAnalyzing (app (draw f c)) = isAnalyzing (app c)"
  "isGeneratingAudio (app (draw f c)) = isGeneratingAudio (app c)"
  "error (app (draw f c)) = error (app c)"
  by (simp_all add: draw_def Let_def)


lemma startRecording_gated:
  "\<not> recording_ready s \<Longrightarrow> startRecording env s = Some s"
  by (auto simp: startRecording_def recording_ready_def split: option.splits)

section \<open>The sample inputs, evaluated\<close>

lemma sample_ready_flags:
  "recording_ready sample_ready" "idle sample_ready" "truthy (scriptToUse sample_ready)"
  "mediaSource sample_ready \<noteq> None"
  by (simp_all add: recording_ready_def idle_def sample_ready_def initial_state_def
      scriptToUse_def truthy_def sample_product_def)



lemma sample_recording:
  "startRecording sample_environment sample_ready
   = Some (sample_ready\<lparr>recordingProgress := 100,
        videoBlobUrl := Some (ObjectURL \<lparr>content = [1, 2, 3], blob_type = ''video/webm''\<rparr>)\<rparr>)"
  by (simp add: startRecording_def startRecording_begin_def sample_ready_def initial_state_def
      sample_environment_def recording_session_def background_music_def animation_loop.simps
      draw_def Let_def sample_frames_def duration_of_def progress_of_def ratio_def
      stop_events_def onstop_def ondataavailable_def Blob_def createObjectURL_def
      getSupportedMimeType_def types_def sample_product_def)


lemma draw_keeps:
  "stream (recorder (draw f c)) = stream (recorder c)"
  "mimeType (recorder (draw f c)) = mimeType (recorder c)"
  "chunks (draw f c) = chunks c"
  "connections (draw f c) = connections c"
  "duration (draw f c) = duration c"
  "info (draw f c) = info c"
  "audioCtx_closed (draw f c) = audioCtx_closed c"
  "map_option volume (bgm (draw f c)) = map_option volume (bgm c)"
  "map_option loop (bgm (draw f c)) = map_option loop (bgm c)"
  "map_option src (bgm (draw f c)) = map_option src (bgm c)"
  by (simp_all add: draw_def Let_def option.map_comp comp_def)

lemma fold_ondataavailable:
  "fold ondataavailable r c = c\<lparr>chunks := chunks c @ r\<rparr>"
  by (induction r arbitrary: c) (simp_all add: ondataavailable_def)

lemma stop_events_url:
  "videoBlobUrl (app (stop_events r c))
   = Some (createObjectURL (Blob (map content (chunks c @ r)) (mimeType (recorder c))))"
  by (simp add: stop_events_def onstop_def Let_def fold_ondataavailable)

lemma recording_session_fields:
  "stream (recorder (recording_session env au m p d s1)) = [CanvasVideoTrack 30, DestAudioTrack]"
  "mimeType (recorder (recording_session env au m p d s1)) = getSupportedMimeType (type_supported env)"
  "chunks (recording_session env au m p d s1) = []"
  "app (recording_session env au m p d s1) = s1"
  "frame_requested (recording_session env au m p d s1)"
  "startTime (recording_session env au m p d s1) = 0"
  "duration (recording_session env au m p d s1) = duration_of d"
  "state (recorder (recording_session env au m p d s1)) = Recording"
  "\<not> paused (audio (recording_session env au m p d s1))"
  by (simp_all add: recording_session_def Let_def captureStream_def dest_stream_def
      getVideoTracks_def getAudioTracks_def MediaStream_def split: prod.splits)

lemma recording_session_music:
  "connections (recording_session env au m p d s1) =
     [(VoiceSource, Dest), (VoiceSource, Speakers)]
     @ (if useBackgroundMusic s1 \<and> \<not> bgm_source_throws env
        then [(BgmSource, Dest), (BgmSource, Speakers)] else [])"
  "bgm (recording_session env au m p d s1) =
     (if useBackgroundMusic s1 \<and> \<not> bgm_source_throws env
      then Some \<lparr>src = RemoteSrc BGM_URL, crossOrigin = Some ''anonymous'', volume = 0.15,
                 loop = True, paused = False\<rparr>
      else None)"
  by (simp_all add: recording_session_def Let_def background_music_def Audio_def)

lemma startRecording_loaded:
  assumes "recording_ready s" and "audio_load env = MetadataLoaded d"
    and "startRecording env s = Some sr"
  shows "\<exists>cv au m p c.
           canvasRef s = Some cv \<and> audioUrl s = Some au \<and> mediaSource s = Some m
           \<and> productInfo s = Some p \<and> asset_loads env
           \<and> animation_loop (frames env) 0
                (recording_session env au m p d (startRecording_begin s)) = Some c
           \<and> sr = app (stop_events (recorded env) c)"
  using assms
  by (auto simp: startRecording_def recording_ready_def Let_def split: if_splits option.splits)

section \<open>Properties of the stage guards\<close>

text \<open>
  Claim C4. Each handler returns at once, leaving the state as it was, when the output of
  the stage before it is missing: \<^verbatim>\<open>analyzeProduct\<close> without an uploaded media source;
  \<^verbatim>\<open>generateAudio\<close> when the selected script is absent or empty (the product's script under
  \<^verbatim>\<open>auto\<close>, the manual script under \<^verbatim>\<open>manual\<close>); \<^verbatim>\<open>startRecording\<close> when the canvas, the audio
  URL, the media source or the product analysis is missing.
\<close>

theorem pipeline_gates:
  "(mediaSource s = None \<longrightarrow> analyzeProduct a s = Some s \<and> analyzeProduct_begin s = s)
   \<and> (activeScriptType s = Auto
        \<and> (productInfo s = None
            \<or> (\<exists>p. productInfo s = Some p \<and> (script p = None \<or> script p = Some '''')))
       \<longrightarrow> generateAudio t s = Some s \<and> generateAudio_begin s = s)
   \<and> (activeScriptType s = Manual \<and> manualScript s = ''''
       \<longrightarrow> generateAudio t s = Some s \<and> generateAudio_begin s = s)
   \<and> (canvasRef s = None \<or> audioUrl s = None \<or> mediaSource s = None \<or> productInfo s = None
       \<longrightarrow> startRecording env s = Some s)"
proof -
  have a: "mediaSource s = None \<longrightarrow> analyzeProduct a s = Some s \<and> analyzeProduct_begin s = s"
    by (simp add: analyzeProduct_def analyzeProduct_begin_def)
  have b: "activeScriptType s = Auto
        \<and> (productInfo s = None
            \<or> (\<exists>p. productInfo s = Some p \<and> (script p = None \<or> script p = Some '''')))
       \<longrightarrow> generateAudio t s = Some s \<and> generateAudio_begin s = s"
    by (auto simp: generateAudio_def generateAudio_begin_def scriptToUse_def truthy_def)
  have c: "activeScriptType s = Manual \<and> manualScript s = ''''
       \<longrightarrow> generateAudio t s = Some s \<and> generateAudio_begin s = s"
    by (simp add: generateAudio_def generateAudio_begin_def scriptToUse_def truthy_def)
  have d: "canvasRef s = None \<or> audioUrl s = None \<or> mediaSource s = None \<or> productInfo s = None
       \<longrightarrow> startRecording env s = Some s"
    by (auto simp: startRecording_def split: option.splits)
  from a b c d show ?thesis by blast
qed

theorem pipeline_gates_witness:
  "mediaSource initial_state = None
   \<and> analyzeProduct (AnalysisData sample_product) initial_state = Some initial_state
   \<and> activeScriptType initial_state = Auto \<and> productInfo initial_state = None
   \<and> generateAudio (TtsDecoded ''abc'') initial_state = Some initial_state
   \<and> activeScriptType (sample_ready\<lparr>activeScriptType := Manual\<rparr>) = Manual
   \<and> manualScript (sample_ready\<lparr>activeScriptType := Manual\<rparr>) = ''''
   \<and> generateAudio (TtsDecoded ''abc'') (sample_ready\<lparr>activeScriptType := Manual\<rparr>)
       = Some (sample_ready\<lparr>activeScriptType := Manual\<rparr>)
   \<and> audioUrl (sample_ready\<lparr>audioUrl := None\<rparr>) = None
   \<and> startRecording sample_environment (sample_ready\<lparr>audioUrl := None\<rparr>)
       = Some (sample_ready\<lparr>audioUrl := None\<rparr>)"
  using pipeline_gates [of initial_state "AnalysisData sample_product" "TtsDecoded ''abc''"
          sample_environment]
    pipeline_gates [of "sample_ready\<lparr>activeScriptType := Manual\<rparr>" "AnalysisData sample_product"
          "TtsDecoded ''abc''" sample_environment]
    pipeline_gates [of "sample_ready\<lparr>audioUrl := None\<rparr>" "AnalysisData sample_product"
          "TtsDecoded ''abc''" sample_environment]
  by (simp add: initial_state_def sample_ready_def)

section \<open>Properties of the WAV header\<close>












section \<open>Properties of the busy flags\<close>




section \<open>Properties of the recorded stream\<close>

text \<open>
  Claim C5. The recorder is given a single stream: the video tracks of the canvas capture
  stream, captured at 30 frames per second, followed by the audio tracks of the stream
  destination node. The narration source is connected to that node, and the background
  music source is connected to it exactly when the music flag is set and the source could
  be created. The recorder is created with the MIME type chosen by
  \<^verbatim>\<open>getSupportedMimeType\<close>, and when a recording whose narration loaded comes to an end,
  the stored video URL is that of a blob made of the recorder's data chunks, in order, with
  that same type.
\<close>

theorem recorded_stream_composition:
  "stream (recorder (recording_session env au m p d s1))
     = getVideoTracks (captureStream 30) @ getAudioTracks dest_stream
   \<and> stream (recorder (recording_session env au m p d s1)) = [CanvasVideoTrack 30, DestAudioTrack]
   \<and> (VoiceSource, Dest) \<in> set (connections (recording_session env au m p d s1))
   \<and> ((BgmSource, Dest) \<in> set (connections (recording_session env au m p d s1)))
       = (useBackgroundMusic s1 \<and> \<not> bgm_source_throws env)
   \<and> mimeType (recorder (recording_session env au m p d s1))
       = getSupportedMimeType (type_supported env)
   \<and> (recording_ready s \<and> audio_load env = MetadataLoaded d \<and> startRecording env s = Some sr
       \<longrightarrow> videoBlobUrl sr
            = Some (createObjectURL
                (Blob (map content (recorded env)) (getSupportedMimeType (type_supported env)))))"
proof -
  have loop: "stream (recorder c') = stream (recorder c) \<and> connections c' = connections c
        \<and> mimeType (recorder c') = mimeType (recorder c) \<and> chunks c' = chunks c"
    if run: "animation_loop fs i c = Some c'" for fs i c c'
  proof -
    have "(stream (recorder c') = stream (recorder c) \<and> connections c' = connections c
        \<and> mimeType (recorder c') = mimeType (recorder c) \<and> chunks c' = chunks c)
        \<and> \<not> frame_requested c'"
      by (rule animation_loop_invariant [OF run, where P = "\<lambda>x. stream (recorder x) = stream (recorder c)
             \<and> connections x = connections c \<and> mimeType (recorder x) = mimeType (recorder c)
             \<and> chunks x = chunks c"]) (simp_all add: draw_keeps)
    then show ?thesis by simp
  qed
  have final: "videoBlobUrl sr
            = Some (createObjectURL
                (Blob (map content (recorded env)) (getSupportedMimeType (type_supported env))))"
    if "recording_ready s" "audio_load env = MetadataLoaded d" "startRecording env s = Some sr"
  proof -
    from startRecording_loaded [OF that] obtain au m p c where
      run: "animation_loop (frames env) 0
              (recording_session env au m p d (startRecording_begin s)) = Some c"
      and sr: "sr = app (stop_events (recorded env) c)"
      by blast
    from loop [OF run] have "mimeType (recorder c) = getSupportedMimeType (type_supported env)"
      "chunks c = []"
      by (simp_all add: recording_session_fields)
    then show ?thesis unfolding sr by (simp add: stop_events_url)
  qed
  show ?thesis
    using final
    by (simp add: recording_session_fields recording_session_music
        captureStream_def dest_stream_def getVideoTracks_def getAudioTracks_def)
qed

theorem recorded_stream_composition_witness:
  "recording_ready sample_ready
   \<and> audio_load sample_environment = MetadataLoaded (Seconds 1)
   \<and> startRecording sample_environment sample_ready
       = Some (sample_ready\<lparr>recordingProgress := 100,
            videoBlobUrl := Some (ObjectURL \<lparr>content = [1, 2, 3], blob_type = ''video/webm''\<rparr>)\<rparr>)
   \<and> videoBlobUrl (sample_ready\<lparr>recordingProgress := 100,
            videoBlobUrl := Some (ObjectURL \<lparr>content = [1, 2, 3], blob_type = ''video/webm''\<rparr>)\<rparr>)
       = Some (createObjectURL (Blob (map content (recorded sample_environment))
                 (getSupportedMimeType (type_supported sample_environment))))
   \<and> getSupportedMimeType (type_supported sample_environment) = ''video/webm''"
proof -
  let ?sr = "sample_ready\<lparr>recordingProgress := 100,
            videoBlobUrl := Some (ObjectURL \<lparr>content = [1, 2, 3], blob_type = ''video/webm''\<rparr>)\<rparr>"
  have p2: "recording_ready sample_ready" by (rule sample_ready_flags)
  have p3: "audio_load sample_environment = MetadataLoaded (Seconds 1)"
    by (simp add: sample_environment_def)
  have p4: "startRecording sample_environment sample_ready = Some ?sr" by (rule sample_recording)
  note t = recorded_stream_composition [of sample_environment _ _ _ "Seconds 1" _ sample_ready ?sr]
  from t p2 p3 p4 have c1: "videoBlobUrl ?sr
       = Some (createObjectURL (Blob (map content (recorded sample_environment))
                 (getSupportedMimeType (type_supported sample_environment))))"
    by blast
  have c2: "getSupportedMimeType (type_supported sample_environment) = ''video/webm''"
    by (simp add: sample_environment_def getSupportedMimeType_def types_def)
  show ?thesis by (intro conjI p2 p3 p4 c1 c2)
qed

section \<open>Properties of the background music\<close>

lemma with_music_flag_draw: "draw f (with_music_flag b c) = with_music_flag b (draw f c)"
  by (simp add: with_music_flag_def draw_def Let_def)

lemma with_music_flag_requested:
  "frame_requested (with_music_flag b c) = frame_requested c"
  by (simp add: with_music_flag_def)

lemma with_music_flag_stop:
  "app (stop_events r (with_music_flag b c)) = (app (stop_events r c))\<lparr>useBackgroundMusic := b\<rparr>"
  by (simp add: with_music_flag_def stop_events_def onstop_def Let_def fold_ondataavailable)

lemma music_failure_session:
  "bgm_source_throws env \<Longrightarrow>
   recording_session env au m p d (startRecording_begin s)
   = with_music_flag (useBackgroundMusic s)
       (recording_session env au m p d (startRecording_begin (s\<lparr>useBackgroundMusic := False\<rparr>)))"
  by (simp add: with_music_flag_def recording_session_def Let_def background_music_def
      startRecording_begin_def)

lemma music_failure_run:
  assumes "bgm_source_throws env"
  shows "startRecording env s
         = map_option (\<lambda>r. r\<lparr>useBackgroundMusic := useBackgroundMusic s\<rparr>)
             (startRecording env (s\<lparr>useBackgroundMusic := False\<rparr>))"
proof (cases "recording_ready s")
  case False
  then have "\<not> recording_ready (s\<lparr>useBackgroundMusic := False\<rparr>)"
    by (simp add: recording_ready_def)
  with False show ?thesis by (simp add: startRecording_gated)
next
  case True
  then obtain cv au m p where
    pres: "canvasRef s = Some cv" "audioUrl s = Some au" "mediaSource s = Some m" "productInfo s = Some p"
    by (auto simp: recording_ready_def)
  show ?thesis
  proof (cases "audio_load env")
    case AudioError
    with pres show ?thesis by (simp add: startRecording_def startRecording_begin_def Let_def)
  next
    case AudioTimeout
    with pres show ?thesis by (simp add: startRecording_def startRecording_begin_def Let_def)
  next
    case (MetadataLoaded d)
    let ?s' = "s\<lparr>useBackgroundMusic := False\<rparr>"
    let ?c = "recording_session env au m p d (startRecording_begin ?s')"
    let ?h = "with_music_flag (useBackgroundMusic s)"
    have sess: "recording_session env au m p d (startRecording_begin s) = ?h ?c"
      by (rule music_failure_session [OF assms])
    have comm: "animation_loop (frames env) 0 (?h ?c) = map_option ?h (animation_loop (frames env) 0 ?c)"
      by (rule animation_loop_commute) (simp_all add: with_music_flag_draw with_music_flag_requested)
    have lhs: "startRecording env s =
        (if \<not> asset_loads env then None
         else (case animation_loop (frames env) 0 (?h ?c) of
                 None \<Rightarrow> None
               | Some c \<Rightarrow> Some (app (stop_events (recorded env) c))))"
      using pres MetadataLoaded by (simp add: startRecording_def Let_def sess)
    have rhs: "startRecording env ?s' =
        (if \<not> asset_loads env then None
         else (case animation_loop (frames env) 0 ?c of
                 None \<Rightarrow> None
               | Some c \<Rightarrow> Some (app (stop_events (recorded env) c))))"
      using pres MetadataLoaded by (simp add: startRecording_def Let_def)
    show ?thesis
      unfolding lhs rhs comm
      by (cases "animation_loop (frames env) 0 ?c") (simp_all add: with_music_flag_stop)
  qed
qed

lemma startRecording_keeps_error:
  assumes "recording_ready s" and "audio_load env = MetadataLoaded d"
    and "startRecording env s = Some sr"
  shows "error sr = error s"
proof -
  from startRecording_loaded [OF assms] obtain au m p c where
    run: "animation_loop (frames env) 0
            (recording_session env au m p d (startRecording_begin s)) = Some c"
    and sr: "sr = app (stop_events (recorded env) c)"
    by blast
  have "error (app c) = error s \<and> \<not> frame_requested c"
    by (rule animation_loop_invariant [OF run, where P = "\<lambda>x. error (app x) = error s"])
       (simp_all add: draw_preserves_flags recording_session_fields startRecording_begin_def)
  moreover have "error sr = error (app c)"
    unfolding sr by (subst stop_events_app) simp
  ultimately show ?thesis by simp
qed

lemma sample_recording_without_music:
  "startRecording (sample_environment\<lparr>bgm_source_throws := True\<rparr>) sample_ready
   = Some (sample_ready\<lparr>recordingProgress := 100,
        videoBlobUrl := Some (ObjectURL \<lparr>content = [1, 2, 3], blob_type = ''video/webm''\<rparr>)\<rparr>)"
  by (simp add: startRecording_def startRecording_begin_def sample_ready_def initial_state_def
      sample_environment_def recording_session_def background_music_def animation_loop.simps
      draw_def Let_def sample_frames_def duration_of_def progress_of_def ratio_def
      stop_events_def onstop_def ondataavailable_def Blob_def createObjectURL_def
      getSupportedMimeType_def types_def sample_product_def)

text \<open>
  Claim C6. The background-music source reaches the recorded destination only when the
  music flag is set; the element then plays \<^verbatim>\<open>BGM_URL\<close> at volume 0.15 with looping on, and
  no frame changes that. When creating the source throws, \<^verbatim>\<open>bgm\<close> is null, only the
  narration is connected, and the error cell is not written: the whole call then behaves
  exactly as with the flag off (it ends in the same state, up to the flag itself, and it
  ends whenever that call ends). A recording whose narration loaded never writes the error
  cell.
\<close>

theorem background_music_optional:
  "((BgmSource, Dest) \<in> set (connections (recording_session env au m p d s1))
      \<longrightarrow> useBackgroundMusic s1)
   \<and> (bgm (recording_session env au m p d s1) \<noteq> None)
       = (useBackgroundMusic s1 \<and> \<not> bgm_source_throws env)
   \<and> ((BgmSource, Dest) \<in> set (connections (recording_session env au m p d s1)))
       = (bgm (recording_session env au m p d s1) \<noteq> None)
   \<and> (\<forall>b. bgm (recording_session env au m p d s1) = Some b \<longrightarrow>
          volume b = 0.15 \<and> loop b \<and> src b = RemoteSrc BGM_URL)
   \<and> map_option volume (bgm (draw f c)) = map_option volume (bgm c)
   \<and> map_option loop (bgm (draw f c)) = map_option loop (bgm c)
   \<and> (bgm_source_throws env \<longrightarrow>
        bgm (recording_session env au m p d s1) = None
        \<and> connections (recording_session env au m p d s1)
            = [(VoiceSource, Dest), (VoiceSource, Speakers)]
        \<and> error (app (recording_session env au m p d s1)) = error s1)
   \<and> (bgm_source_throws env \<longrightarrow>
        startRecording env s
          = map_option (\<lambda>r. r\<lparr>useBackgroundMusic := useBackgroundMusic s\<rparr>)
              (startRecording env (s\<lparr>useBackgroundMusic := False\<rparr>)))
   \<and> (recording_ready s \<and> audio_load env = MetadataLoaded d \<and> startRecording env s = Some sr
       \<longrightarrow> error sr = error s)"
  using music_failure_run [of env s] startRecording_keeps_error [of s env d sr]
  by (simp add: recording_session_music recording_session_fields draw_keeps)

theorem background_music_optional_witness:
  "useBackgroundMusic sample_ready
   \<and> (BgmSource, Dest) \<in> set (connections (recording_session sample_environment
         (ObjectURL sample_audio) \<lparr>url = ObjectURL sample_audio, type = Image\<rparr>
         sample_product (Seconds 1) sample_ready))
   \<and> bgm (recording_session sample_environment
         (ObjectURL sample_audio) \<lparr>url = ObjectURL sample_audio, type = Image\<rparr>
         sample_product (Seconds 1) sample_ready)
       = Some \<lparr>src = RemoteSrc BGM_URL, crossOrigin = Some ''anonymous'', volume = 0.15,
               loop = True, paused = False\<rparr>
   \<and> volume \<lparr>src = RemoteSrc BGM_URL, crossOrigin = Some ''anonymous'', volume = 0.15,
               loop = True, paused = False\<rparr> = 0.15
   \<and> bgm_source_throws (sample_environment\<lparr>bgm_source_throws := True\<rparr>)
   \<and> bgm (recording_session (sample_environment\<lparr>bgm_source_throws := True\<rparr>)
         (ObjectURL sample_audio) \<lparr>url = ObjectURL sample_audio, type = Image\<rparr>
         sample_product (Seconds 1) sample_ready) = None
   \<and> recording_ready sample_ready
   \<and> audio_load (sample_environment\<lparr>bgm_source_throws := True\<rparr>) = MetadataLoaded (Seconds 1)
   \<and> startRecording (sample_environment\<lparr>bgm_source_throws := True\<rparr>) sample_ready
       = Some (sample_ready\<lparr>recordingProgress := 100,
            videoBlobUrl := Some (ObjectURL \<lparr>content = [1, 2, 3], blob_type = ''video/webm''\<rparr>)\<rparr>)
   \<and> map_option (\<lambda>r. r\<lparr>useBackgroundMusic := useBackgroundMusic sample_ready\<rparr>)
         (startRecording (sample_environment\<lparr>bgm_source_throws := True\<rparr>)
            (sample_ready\<lparr>useBackgroundMusic := False\<rparr>))
       = Some (sample_ready\<lparr>recordingProgress := 100,
            videoBlobUrl := Some (ObjectURL \<lparr>content = [1, 2, 3], blob_type = ''video/webm''\<rparr>)\<rparr>)
   \<and> error (sample_ready\<lparr>recordingProgress := 100,
            videoBlobUrl := Some (ObjectURL \<lparr>content = [1, 2, 3], blob_type = ''video/webm''\<rparr>)\<rparr>)
       = error sample_ready"
proof -
  let ?env = "sample_environment\<lparr>bgm_source_throws := True\<rparr>"
  let ?sr = "sample_ready\<lparr>recordingProgress := 100,
            videoBlobUrl := Some (ObjectURL \<lparr>content = [1, 2, 3], blob_type = ''video/webm''\<rparr>)\<rparr>"
  let ?au = "ObjectURL sample_audio"
  let ?m = "\<lparr>url = ObjectURL sample_audio, type = Image\<rparr>"
  let ?b = "\<lparr>src = RemoteSrc BGM_URL, crossOrigin = Some ''anonymous'', volume = 0.15,
               loop = True, paused = False\<rparr>"
  note t = background_music_optional [of sample_environment ?au ?m sample_product "Seconds 1"
      sample_ready _ _ sample_ready ?sr]
  note u = background_music_optional [of ?env ?au ?m sample_product "Seconds 1"
      sample_ready _ _ sample_ready ?sr]
  have p1: "useBackgroundMusic sample_ready"
    by (simp add: sample_ready_def initial_state_def)
  have p2: "\<not> bgm_source_throws sample_environment"
    by (simp add: sample_environment_def)
  have p3: "bgm (recording_session sample_environment ?au ?m sample_product (Seconds 1) sample_ready)
            = Some ?b"
    using p1 p2 by (simp add: recording_session_music)
  have p4: "bgm_source_throws ?env" by simp
  have p5: "recording_ready sample_ready" by (rule sample_ready_flags)
  have p6: "audio_load ?env = MetadataLoaded (Seconds 1)"
    by (simp add: sample_environment_def)
  have p7: "startRecording ?env sample_ready = Some ?sr"
    by (rule sample_recording_without_music)
  from t p1 p2 have c1: "(BgmSource, Dest) \<in> set (connections
      (recording_session sample_environment ?au ?m sample_product (Seconds 1) sample_ready))"
    by blast
  from t p3 have c2: "volume ?b = 0.15" by blast
  from u p4 have c3: "bgm (recording_session ?env ?au ?m sample_product (Seconds 1) sample_ready)
      = None" by blast
  from u p4 have "startRecording ?env sample_ready
          = map_option (\<lambda>r. r\<lparr>useBackgroundMusic := useBackgroundMusic sample_ready\<rparr>)
              (startRecording ?env (sample_ready\<lparr>useBackgroundMusic := False\<rparr>))"
    by blast
  with p7 have c4: "map_option (\<lambda>r. r\<lparr>useBackgroundMusic := useBackgroundMusic sample_ready\<rparr>)
         (startRecording ?env (sample_ready\<lparr>useBackgroundMusic := False\<rparr>)) = Some ?sr"
    by simp
  from u p5 p6 p7 have c5: "error ?sr = error sample_ready" by blast
  show ?thesis by (intro conjI p1 c1 p3 c2 p4 c3 p5 p6 p7 c4 c5)
qed

section \<open>Properties of the animation\<close>

lemma offset_draw:
  "offset (draw f c)
   = animate (animationType (info c)) (recordingProgress (app (draw f c)) / 100)
       (random1 f) (random2 f)"
  by (simp add: draw_def Let_def)

lemma animate_scale: "snd (snd (animate a p r1 r2)) = 1.1"
  by (simp add: animate_def Let_def)

lemma animate_default:
  "\<not> truthy a \<Longrightarrow> animate a p r1 r2 = (sin (p * pi) * 50, 0, 1.1)"
  by (auto simp: animate_def Let_def truthy_def or_else_def split: option.splits)

lemma animate_named:
  "animate (Some ''panning'') p r1 r2 = (sin (p * pi) * 50, 0, 1.1)"
  "animate (Some ''bouncing'') p r1 r2 = (0, sin (p * pi * 4) * 30, 1.1)"
  "animate (Some ''vibrating'') p r1 r2 = ((r1 - 0.5) * 10, (r2 - 0.5) * 10, 1.1)"
  "animate (Some ''sliding'') p r1 r2 = (- 100 + p * 200, 0, 1.1)"
  by (simp_all add: animate_def Let_def or_else_def)

lemma animate_other:
  "truthy a \<Longrightarrow> a \<noteq> Some ''panning'' \<Longrightarrow> a \<noteq> Some ''bouncing'' \<Longrightarrow>
   a \<noteq> Some ''vibrating'' \<Longrightarrow> a \<noteq> Some ''sliding'' \<Longrightarrow> animate a p r1 r2 = (0, 0, 1.1)"
  by (auto simp: animate_def Let_def truthy_def or_else_def split: option.splits)

lemma panning_range:
  assumes "0 \<le> p" "p \<le> 1"
  shows "0 \<le> sin (p * pi) * 50" "sin (p * pi) * 50 \<le> 50"
proof -
  have "0 \<le> p * pi" using assms(1) by simp
  moreover have "p * pi \<le> pi" using assms(2) by (simp add: mult_left_le_one_le)
  ultimately have "0 \<le> sin (p * pi)" by (rule sin_ge_zero)
  then show "0 \<le> sin (p * pi) * 50" by simp
  have "sin (p * pi) \<le> 1" by (rule sin_le_one)
  then show "sin (p * pi) * 50 \<le> 50" by simp
qed

lemma bouncing_range: "- 30 \<le> sin (p * pi * 4) * 30" "sin (p * pi * 4) * 30 \<le> 30"
proof -
  have "- 1 \<le> sin (p * pi * 4)" by (rule sin_ge_minus_one)
  then show "- 30 \<le> sin (p * pi * 4) * 30" by simp
  have "sin (p * pi * 4) \<le> 1" by (rule sin_le_one)
  then show "sin (p * pi * 4) * 30 \<le> 30" by simp
qed

lemma vibrating_range:
  fixes r :: real
  assumes "0 \<le> r" "r < 1"
  shows "- 5 \<le> (r - 0.5) * 10" "(r - 0.5) * 10 < 5"
  using assms by simp_all

text \<open>
  Claim C3, as amended. The frame transform is chosen by \<^verbatim>\<open>productInfo.animationType\<close>,
  with a missing or empty value treated as panning. For every progress \<open>p\<close> in \<open>[0, 1]\<close>:
  panning sets \<open>x = sin (p * pi) * 50\<close>, which lies in \<open>[0, 50]\<close>, and \<open>y = 0\<close>; bouncing
  sets \<open>y = sin (p * pi * 4) * 30\<close>, which lies in \<open>[-30, 30]\<close>, and \<open>x = 0\<close>; sliding sets
  \<open>x = -100 + p * 200\<close>, from -100 at \<open>p = 0\<close> to 100 at \<open>p = 1\<close>; vibrating sets
  \<open>x = (r1 - 0.5) * 10\<close> and \<open>y = (r2 - 0.5) * 10\<close> for the two random numbers, which lie
  in \<open>[-5, 5)\<close>. A non-empty value that is none of the four names leaves \<open>x = 0\<close> and
  \<open>y = 0\<close>. The scale factor is 1.1 in every case, and this is the transform every frame
  paints with.
\<close>

theorem animation_branches:
  "(0 \<le> p \<and> p \<le> 1 \<and> (\<not> truthy a \<or> a = Some ''panning'') \<longrightarrow>
      animate a p r1 r2 = (sin (p * pi) * 50, 0, 1.1)
      \<and> 0 \<le> fst (animate a p r1 r2) \<and> fst (animate a p r1 r2) \<le> 50)
   \<and> animate (Some ''bouncing'') p r1 r2 = (0, sin (p * pi * 4) * 30, 1.1)
   \<and> - 30 \<le> fst (snd (animate (Some ''bouncing'') p r1 r2))
   \<and> fst (snd (animate (Some ''bouncing'') p r1 r2)) \<le> 30
   \<and> animate (Some ''sliding'') p r1 r2 = (- 100 + p * 200, 0, 1.1)
   \<and> animate (Some ''sliding'') 0 r1 r2 = (- 100, 0, 1.1)
   \<and> animate (Some ''sliding'') 1 r1 r2 = (100, 0, 1.1)
   \<and> (0 \<le> p \<and> p \<le> 1 \<longrightarrow>
        - 100 \<le> fst (animate (Some ''sliding'') p r1 r2)
        \<and> fst (animate (Some ''sliding'') p r1 r2) \<le> 100)
   \<and> animate (Some ''vibrating'') p r1 r2 = ((r1 - 0.5) * 10, (r2 - 0.5) * 10, 1.1)
   \<and> (0 \<le> r1 \<and> r1 < 1 \<and> 0 \<le> r2 \<and> r2 < 1 \<longrightarrow>
        - 5 \<le> fst (animate (Some ''vibrating'') p r1 r2)
        \<and> fst (animate (Some ''vibrating'') p r1 r2) < 5
        \<and> - 5 \<le> fst (snd (animate (Some ''vibrating'') p r1 r2))
        \<and> fst (snd (animate (Some ''vibrating'') p r1 r2)) < 5)
   \<and> (truthy a \<and> a \<noteq> Some ''panning'' \<and> a \<noteq> Some ''bouncing''
        \<and> a \<noteq> Some ''vibrating'' \<and> a \<noteq> Some ''sliding'' \<longrightarrow>
        animate a p r1 r2 = (0, 0, 1.1))
   \<and> snd (snd (animate a p r1 r2)) = 1.1
   \<and> offset (draw f c)
       = animate (animationType (info c)) (recordingProgress (app (draw f c)) / 100)
           (random1 f) (random2 f)"
proof -
  have pan: "0 \<le> p \<and> p \<le> 1 \<and> (\<not> truthy a \<or> a = Some ''panning'') \<longrightarrow>
      animate a p r1 r2 = (sin (p * pi) * 50, 0, 1.1)
      \<and> 0 \<le> fst (animate a p r1 r2) \<and> fst (animate a p r1 r2) \<le> 50"
  proof (intro impI)
    assume h: "0 \<le> p \<and> p \<le> 1 \<and> (\<not> truthy a \<or> a = Some ''panning'')"
    then have eq: "animate a p r1 r2 = (sin (p * pi) * 50, 0, 1.1)"
      using animate_default [of a p r1 r2] animate_named(1) [of p r1 r2] by blast
    from h have "0 \<le> sin (p * pi) * 50" "sin (p * pi) * 50 \<le> 50"
      using panning_range [of p] by blast+
    with eq show "animate a p r1 r2 = (sin (p * pi) * 50, 0, 1.1)
      \<and> 0 \<le> fst (animate a p r1 r2) \<and> fst (animate a p r1 r2) \<le> 50"
      by simp
  qed
  have bounce: "- 30 \<le> fst (snd (animate (Some ''bouncing'') p r1 r2))
      \<and> fst (snd (animate (Some ''bouncing'') p r1 r2)) \<le> 30"
    using bouncing_range [of p] by (simp add: animate_named)
  have slide: "0 \<le> p \<and> p \<le> 1 \<longrightarrow>
        - 100 \<le> fst (animate (Some ''sliding'') p r1 r2)
        \<and> fst (animate (Some ''sliding'') p r1 r2) \<le> 100"
    by (simp add: animate_named)
  have vib: "0 \<le> r1 \<and> r1 < 1 \<and> 0 \<le> r2 \<and> r2 < 1 \<longrightarrow>
        - 5 \<le> fst (animate (Some ''vibrating'') p r1 r2)
        \<and> fst (animate (Some ''vibrating'') p r1 r2) < 5
        \<and> - 5 \<le> fst (snd (animate (Some ''vibrating'') p r1 r2))
        \<and> fst (snd (animate (Some ''vibrating'') p r1 r2)) < 5"
    by (simp add: animate_named)
  have other: "truthy a \<and> a \<noteq> Some ''panning'' \<and> a \<noteq> Some ''bouncing''
        \<and> a \<noteq> Some ''vibrating'' \<and> a \<noteq> Some ''sliding'' \<longrightarrow>
        animate a p r1 r2 = (0, 0, 1.1)"
    using animate_other [of a p r1 r2] by blast
  have ends: "animate (Some ''sliding'') 0 r1 r2 = (- 100, 0, 1.1)"
    "animate (Some ''sliding'') 1 r1 r2 = (100, 0, 1.1)"
    by (simp_all add: animate_named)
  show ?thesis
    by (intro conjI pan bounce [THEN conjunct1] bounce [THEN conjunct2] slide vib other ends
        animate_named animate_scale offset_draw)
qed


theorem animation_branches_witness:
  "(0::real) \<le> 1 / 2 \<and> (1 / 2 :: real) \<le> 1 \<and> \<not> truthy None
   \<and> animate None (1 / 2) 0 (3 / 4) = (50, 0, 1.1)
   \<and> (0::real) \<le> 0 \<and> (0::real) < 1 \<and> (0::real) \<le> 3 / 4 \<and> (3 / 4 :: real) < 1
   \<and> - 5 \<le> fst (animate (Some ''vibrating'') (1 / 2) 0 (3 / 4))
   \<and> fst (snd (animate (Some ''vibrating'') (1 / 2) 0 (3 / 4))) < 5
   \<and> - 100 \<le> fst (animate (Some ''sliding'') (1 / 2) 0 (3 / 4))
   \<and> truthy (Some ''zooming'')
   \<and> animate (Some ''zooming'') (1 / 2) 0 (3 / 4) = (0, 0, 1.1)"
proof -
  note t = animation_branches [of "1 / 2" None 0 "3 / 4"]
  note u = animation_branches [of "1 / 2" "Some ''zooming''" 0 "3 / 4"]
  have n: "\<not> truthy None" and z: "truthy (Some ''zooming'')"
    by (simp_all add: truthy_def)
  from t n have c1: "animate None (1 / 2) 0 (3 / 4) = (50, 0, 1.1)" by simp
  from t have c2: "- 5 \<le> fst (animate (Some ''vibrating'') (1 / 2) 0 (3 / 4))"
    and c3: "fst (snd (animate (Some ''vibrating'') (1 / 2) 0 (3 / 4))) < 5"
    and c4: "- 100 \<le> fst (animate (Some ''sliding'') (1 / 2) 0 (3 / 4))"
    by simp_all
  from u z have c5: "animate (Some ''zooming'') (1 / 2) 0 (3 / 4) = (0, 0, 1.1)" by simp
  from n z c1 c2 c3 c4 c5 show ?thesis by simp
qed

text \<open>
  The claim as first stated fails in two places. An animation type that is present but is
  none of the four names is not treated as panning: half-way through, panning is 50 pixels
  to the right while the unknown type stays at the origin. And the vibrating offsets lie
  in the half-open interval from -5 (included) to 5, not in the open one: a random value
  of 0 gives exactly -5.
\<close>

theorem animation_unrecognized_static:
  "animate (Some ''zooming'') (1 / 2) 0 0 = (0, 0, 1.1)
   \<and> animate (Some ''panning'') (1 / 2) 0 0 = (50, 0, 1.1)
   \<and> animate (Some ''vibrating'') (1 / 2) 0 0 = (- 5, - 5, 1.1)"
  by (simp add: animate_def Let_def or_else_def)

section \<open>Properties of the recording clock\<close>

lemma duration_of_cases:
  "duration_of NaN = Millis 11500"
  "duration_of (Seconds 0) = Millis 11500"
  "duration_of PosInfinity = Unbounded"
  "a \<noteq> 0 \<Longrightarrow> duration_of (Seconds a) = Millis (a * 1000 + 1500)"
  by (simp_all add: duration_of_def)

lemma duration_of_positive:
  "(\<And>a. d = Seconds a \<Longrightarrow> 0 \<le> a) \<Longrightarrow> positive_duration (duration_of d)"
  by (cases d) (auto simp: duration_of_def positive_duration_def intro: add_nonneg_pos)

lemma draw_startTime:
  "startTime (draw f c) = (if startTime c = 0 then timestamp f else startTime c)"
  by (simp add: draw_def Let_def)

lemma draw_progress:
  "recordingProgress (app (draw f c))
   = min (ratio (timestamp f - startTime (draw f c)) (duration c)) 1 * 100"
  by (simp add: draw_def Let_def progress_of_def)

lemma draw_requested:
  "frame_requested (draw f c) = (ratio (timestamp f - startTime (draw f c)) (duration c) < 1)"
  by (auto simp: draw_def Let_def progress_of_def min_less_iff_disj)









lemma sample_session_fields:
  "startTime sample_session = 0" "frame_requested sample_session"
  "duration sample_session = Millis 2500"
  "asset sample_session = VideoElement False"
  "bgm sample_session = Some \<lparr>src = RemoteSrc BGM_URL, crossOrigin = Some ''anonymous'',
       volume = 0.15, loop = True, paused = False\<rparr>"
  "recordingProgress (app sample_session) = 0"
  by (simp_all add: sample_session_def recording_session_fields recording_session_music
      duration_of_cases sample_environment_def sample_ready_def initial_state_def
      startRecording_begin_def)
     (simp add: recording_session_def Let_def split: prod.splits)





section \<open>Properties of the progress display\<close>

lemma ratio_mono: "positive_duration d \<Longrightarrow> e1 \<le> e2 \<Longrightarrow> ratio e1 d \<le> ratio e2 d"
  by (cases d) (simp_all add: ratio_def positive_duration_def divide_right_mono)

lemma ratio_nonneg: "positive_duration d \<Longrightarrow> 0 \<le> e \<Longrightarrow> 0 \<le> ratio e d"
  by (cases d) (simp_all add: ratio_def positive_duration_def)

lemma ratio_zero: "ratio 0 d = 0"
  by (cases d) (simp_all add: ratio_def)

lemma on_clock_range:
  assumes "positive_duration d" and "on_clock fs n d c"
  shows "0 \<le> recordingProgress (app c)" "recordingProgress (app c) \<le> 100"
proof -
  from assms(2) consider "recordingProgress (app c) = 0"
    | m where "startTime c \<le> timestamp (fs m)"
        "recordingProgress (app c) = min (ratio (timestamp (fs m) - startTime c) d) 1 * 100"
    unfolding on_clock_def by blast
  then have "0 \<le> recordingProgress (app c) \<and> recordingProgress (app c) \<le> 100"
  proof cases
    case 1
    then show ?thesis by simp
  next
    case 2
    from 2(1) have "0 \<le> ratio (timestamp (fs m) - startTime c) d"
      by (intro ratio_nonneg assms(1)) simp
    with 2(2) show ?thesis by simp
  qed
  then show "0 \<le> recordingProgress (app c)" "recordingProgress (app c) \<le> 100" by simp_all
qed

lemma on_clock_draw:
  assumes mono: "\<forall>i j. i \<le> j \<longrightarrow> timestamp (fs i) \<le> timestamp (fs j)"
    and pos: "positive_duration d" and inv: "on_clock fs n d c"
  shows "on_clock fs (Suc n) d (draw (fs n) c)"
    and "recordingProgress (app c) \<le> recordingProgress (app (draw (fs n) c))"
proof -
  have dur: "duration c = d" using inv by (simp add: on_clock_def)
  have both: "on_clock fs (Suc n) d (draw (fs n) c)
      \<and> recordingProgress (app c) \<le> recordingProgress (app (draw (fs n) c))"
  proof (cases "startTime c = 0")
    case True
    with inv have rp: "recordingProgress (app c) = 0" by (auto simp: on_clock_def)
    have st: "startTime (draw (fs n) c) = timestamp (fs n)"
      using True by (simp add: draw_startTime)
    have rp': "recordingProgress (app (draw (fs n) c)) = 0"
      by (simp add: draw_progress st ratio_zero)
    have "on_clock fs (Suc n) d (draw (fs n) c)"
    proof (cases "timestamp (fs n) = 0")
      case True
      with st rp' dur show ?thesis by (simp add: on_clock_def draw_keeps)
    next
      case False
      have "n < Suc n \<and> startTime (draw (fs n) c) \<le> timestamp (fs n)
            \<and> recordingProgress (app (draw (fs n) c))
                = min (ratio (timestamp (fs n) - startTime (draw (fs n) c)) d) 1 * 100"
        using st rp' by (simp add: ratio_zero)
      then have "\<exists>m<Suc n. startTime (draw (fs n) c) \<le> timestamp (fs m)
            \<and> recordingProgress (app (draw (fs n) c))
                = min (ratio (timestamp (fs m) - startTime (draw (fs n) c)) d) 1 * 100"
        by blast
      with False st dur show ?thesis by (simp add: on_clock_def draw_keeps)
    qed
    with rp rp' show ?thesis by simp
  next
    case False
    with inv obtain m where m: "m < n" "startTime c \<le> timestamp (fs m)"
      "recordingProgress (app c) = min (ratio (timestamp (fs m) - startTime c) d) 1 * 100"
      by (auto simp: on_clock_def)
    have st: "startTime (draw (fs n) c) = startTime c"
      using False by (simp add: draw_startTime)
    have rp': "recordingProgress (app (draw (fs n) c))
               = min (ratio (timestamp (fs n) - startTime c) d) 1 * 100"
      by (simp add: draw_progress st dur)
    from mono m(1) have le: "timestamp (fs m) \<le> timestamp (fs n)" by simp
    then have "ratio (timestamp (fs m) - startTime c) d \<le> ratio (timestamp (fs n) - startTime c) d"
      by (intro ratio_mono pos) simp
    then have up: "recordingProgress (app c) \<le> recordingProgress (app (draw (fs n) c))"
      unfolding m(3) rp' by (simp add: min.coboundedI1 min_le_iff_disj)
    have "n < Suc n \<and> startTime (draw (fs n) c) \<le> timestamp (fs n)
            \<and> recordingProgress (app (draw (fs n) c))
                = min (ratio (timestamp (fs n) - startTime (draw (fs n) c)) d) 1 * 100"
      using st rp' m(2) le by simp
    then have "\<exists>m<Suc n. startTime (draw (fs n) c) \<le> timestamp (fs m)
            \<and> recordingProgress (app (draw (fs n) c))
                = min (ratio (timestamp (fs m) - startTime (draw (fs n) c)) d) 1 * 100"
      by blast
    with False st dur have "on_clock fs (Suc n) d (draw (fs n) c)"
      by (simp add: on_clock_def draw_keeps)
    with up show ?thesis by simp
  qed
  then show "on_clock fs (Suc n) d (draw (fs n) c)"
    and "recordingProgress (app c) \<le> recordingProgress (app (draw (fs n) c))" by simp_all
qed

lemma on_clock_later: "on_clock fs n d c \<Longrightarrow> on_clock fs (Suc n) d c"
  unfolding on_clock_def using less_Suc_eq by blast

lemma on_clock_after_frames:
  assumes mono: "\<forall>i j. i \<le> j \<longrightarrow> timestamp (fs i) \<le> timestamp (fs j)"
    and pos: "positive_duration (duration c)"
    and start: "startTime c = 0" and rp: "recordingProgress (app c) = 0"
  shows "on_clock fs n (duration c) (after_frames fs n c)"
proof (induction n)
  case 0
  show ?case using start rp by (simp add: on_clock_def)
next
  case (Suc n)
  show ?case
  proof (cases "frame_requested (after_frames fs n c)")
    case True
    then have "after_frames fs (Suc n) c = draw (fs n) (after_frames fs n c)"
      by (simp add: Let_def)
    with on_clock_draw(1) [OF mono pos Suc] show ?thesis by simp
  next
    case False
    then have "after_frames fs (Suc n) c = after_frames fs n c"
      by (simp add: Let_def)
    with on_clock_later [OF Suc] show ?thesis by simp
  qed
qed

lemma progress_steps:
  assumes mono: "\<forall>i j. i \<le> j \<longrightarrow> timestamp (fs i) \<le> timestamp (fs j)"
    and pos: "positive_duration (duration c)"
    and start: "startTime c = 0" and rp: "recordingProgress (app c) = 0"
  shows "0 \<le> recordingProgress (app (after_frames fs n c))"
    and "recordingProgress (app (after_frames fs n c)) \<le> 100"
    and "recordingProgress (app (after_frames fs n c))
         \<le> recordingProgress (app (after_frames fs (Suc n) c))"
proof -
  note inv = on_clock_after_frames [OF assms, of n]
  from on_clock_range [OF pos inv]
  show "0 \<le> recordingProgress (app (after_frames fs n c))"
    and "recordingProgress (app (after_frames fs n c)) \<le> 100" by simp_all
  show "recordingProgress (app (after_frames fs n c))
         \<le> recordingProgress (app (after_frames fs (Suc n) c))"
  proof (cases "frame_requested (after_frames fs n c)")
    case True
    then have "after_frames fs (Suc n) c = draw (fs n) (after_frames fs n c)"
      by (simp add: Let_def)
    with on_clock_draw(2) [OF mono pos inv] show ?thesis by simp
  next
    case False
    then show ?thesis by (simp add: Let_def)
  qed
qed

lemma sample_progress:
  "recordingProgress (app (after_frames sample_frames (Suc 0) sample_session)) = 0"
  "recordingProgress (app (after_frames sample_frames (Suc (Suc 0)) sample_session)) = 40"
  "recordingProgress (app (after_frames sample_frames (Suc (Suc (Suc 0))) sample_session)) = 80"
  "recordingProgress (app (after_frames sample_frames (Suc (Suc (Suc (Suc 0)))) sample_session)) = 100"
  by (simp_all add: Let_def draw_requested draw_progress draw_startTime draw_keeps
      sample_session_fields sample_frames_def ratio_def)

text \<open>
  Claim C9. Every frame sets the displayed progress to
  \<open>min (elapsed / duration) 1 * 100\<close>, which is at most 100. A recording starts with the
  display at 0, no start time latched and, the media duration not being negative, a
  positive length. From there, on a frame clock whose timestamps never decrease, the
  display stays within \<open>[0, 100]\<close> and never goes down from one frame to the next, up to
  and after the frame that stops the recording.
\<close>

theorem recording_progress_in_range:
  "recordingProgress (app (draw f c))
     = min (ratio (timestamp f - (if startTime c = 0 then timestamp f else startTime c))
              (duration c)) 1 * 100
   \<and> recordingProgress (app (draw f c)) \<le> 100
   \<and> ((\<forall>a. d = Seconds a \<longrightarrow> 0 \<le> a) \<longrightarrow>
        positive_duration (duration (recording_session env au m p d (startRecording_begin s))))
   \<and> startTime (recording_session env au m p d (startRecording_begin s)) = 0
   \<and> recordingProgress (app (recording_session env au m p d (startRecording_begin s))) = 0
   \<and> (mono (\<lambda>i. timestamp (fs i)) \<and> positive_duration (duration c) \<and> startTime c = 0
        \<and> recordingProgress (app c) = 0 \<longrightarrow>
        (\<forall>n. 0 \<le> recordingProgress (app (after_frames fs n c))
            \<and> recordingProgress (app (after_frames fs n c)) \<le> 100
            \<and> recordingProgress (app (after_frames fs n c))
                \<le> recordingProgress (app (after_frames fs (Suc n) c))))"
proof -
  have formula: "recordingProgress (app (draw f c))
     = min (ratio (timestamp f - (if startTime c = 0 then timestamp f else startTime c))
              (duration c)) 1 * 100"
    using draw_progress [of f c] by (simp only: draw_startTime)
  have upper: "recordingProgress (app (draw f c)) \<le> 100"
    by (simp add: draw_progress)
  have pos: "(\<forall>a. d = Seconds a \<longrightarrow> 0 \<le> a) \<longrightarrow>
        positive_duration (duration (recording_session env au m p d (startRecording_begin s)))"
    using duration_of_positive [of d] by (simp add: recording_session_fields)
  have zero: "recordingProgress (app (recording_session env au m p d (startRecording_begin s))) = 0"
    by (simp add: recording_session_fields startRecording_begin_def)
  have steps: "mono (\<lambda>i. timestamp (fs i)) \<and> positive_duration (duration c) \<and> startTime c = 0
        \<and> recordingProgress (app c) = 0 \<longrightarrow>
        (\<forall>n. 0 \<le> recordingProgress (app (after_frames fs n c))
            \<and> recordingProgress (app (after_frames fs n c)) \<le> 100
            \<and> recordingProgress (app (after_frames fs n c))
                \<le> recordingProgress (app (after_frames fs (Suc n) c)))"
  proof (intro impI allI)
    fix n
    assume h: "mono (\<lambda>i. timestamp (fs i)) \<and> positive_duration (duration c) \<and> startTime c = 0
        \<and> recordingProgress (app c) = 0"
    then have m: "\<forall>i j. i \<le> j \<longrightarrow> timestamp (fs i) \<le> timestamp (fs j)"
      by (auto dest: monoD)
    from h have rest: "positive_duration (duration c)" "startTime c = 0"
      "recordingProgress (app c) = 0" by simp_all
    from progress_steps [OF m rest, of n]
    show "0 \<le> recordingProgress (app (after_frames fs n c))
            \<and> recordingProgress (app (after_frames fs n c)) \<le> 100
            \<and> recordingProgress (app (after_frames fs n c))
                \<le> recordingProgress (app (after_frames fs (Suc n) c))"
      by (intro conjI)
  qed
  show ?thesis
    by (intro conjI formula upper pos recording_session_fields(6) zero steps)
qed

theorem recording_progress_in_range_witness:
  "mono (\<lambda>i. timestamp (sample_frames i))
   \<and> positive_duration (duration sample_session)
   \<and> startTime sample_session = 0
   \<and> recordingProgress (app sample_session) = 0
   \<and> recordingProgress (app (after_frames sample_frames (Suc (Suc 0)) sample_session)) = 40
   \<and> recordingProgress (app (after_frames sample_frames (Suc (Suc (Suc 0))) sample_session)) = 80
   \<and> 0 \<le> recordingProgress (app (after_frames sample_frames (Suc (Suc 0)) sample_session))
   \<and> recordingProgress (app (after_frames sample_frames (Suc (Suc 0)) sample_session)) \<le> 100
   \<and> recordingProgress (app (after_frames sample_frames (Suc (Suc 0)) sample_session))
       \<le> recordingProgress (app (after_frames sample_frames (Suc (Suc (Suc 0))) sample_session))
   \<and> positive_duration (duration (recording_session sample_environment (ObjectURL sample_audio)
         \<lparr>url = ObjectURL sample_audio, type = Image\<rparr> sample_product (Seconds 1)
         (startRecording_begin sample_ready)))"
proof -
  note t = recording_progress_in_range [of _ sample_session "Seconds 1" sample_environment
      "ObjectURL sample_audio" "\<lparr>url = ObjectURL sample_audio, type = Image\<rparr>" sample_product
      sample_ready sample_frames]
  have p1: "mono (\<lambda>i. timestamp (sample_frames i))"
    by (rule monoI) (simp add: sample_frames_def)
  have p2: "positive_duration (duration sample_session)"
    by (simp add: sample_session_fields positive_duration_def)
  note p3 = sample_session_fields(1) and p4 = sample_session_fields(6)
  from t p1 p2 p3 p4
  have all: "\<forall>n. 0 \<le> recordingProgress (app (after_frames sample_frames n sample_session))
            \<and> recordingProgress (app (after_frames sample_frames n sample_session)) \<le> 100
            \<and> recordingProgress (app (after_frames sample_frames n sample_session))
                \<le> recordingProgress (app (after_frames sample_frames (Suc n) sample_session))"
    by blast
  from all have c1: "0 \<le> recordingProgress (app (after_frames sample_frames (Suc (Suc 0)) sample_session))"
    and c2: "recordingProgress (app (after_frames sample_frames (Suc (Suc 0)) sample_session)) \<le> 100"
    and c3: "recordingProgress (app (after_frames sample_frames (Suc (Suc 0)) sample_session))
       \<le> recordingProgress (app (after_frames sample_frames (Suc (Suc (Suc 0))) sample_session))"
    by blast+
  have "\<forall>a. Seconds 1 = Seconds a \<longrightarrow> 0 \<le> a" by simp
  with t have c4: "positive_duration (duration (recording_session sample_environment
         (ObjectURL sample_audio) \<lparr>url = ObjectURL sample_audio, type = Image\<rparr> sample_product
         (Seconds 1) (startRecording_begin sample_ready)))"
    by blast
  show ?thesis
    by (intro conjI p1 p2 p3 p4 sample_progress(2,3) c1 c2 c3 c4)
qed

end
